theory Spec2Isabelle
  imports Main "HOL-Library.Word"
begin

section \<open>Machine numbers\<close>

text \<open>
  \<^verbatim>\<open>GLuint\<close> and \<^verbatim>\<open>unsigned\<close> are 32-bit unsigned integers: addition and
  subtraction wrap modulo \<open>2 ^ 32\<close>. \<^verbatim>\<open>GLint\<close> is read only through the test
  \<^verbatim>\<open>status == GL_FALSE\<close>, a comparison of the bit pattern with 0.
\<close>

type_synonym GLuint = "32 word"
type_synonym GLint = "32 word"

subsection \<open>Single precision\<close>

text \<open>
  \<^verbatim>\<open>float\<close> is IEEE 754 binary32 with round to nearest, ties to even, every operation
  rounded to binary32 (no excess precision). A finite value is \<open>Finite s m e\<close>, standing
  for \<open>(-1)^s * m * 2^e\<close> with \<open>m < 2^24\<close> and \<open>-149 \<le> e \<le> 104\<close>, in the normal form
  \<open>2^23 \<le> m\<close> or \<open>e = -149\<close> (subnormals and the two zeros). All NaNs are one value.
\<close>

datatype float32 = Finite bool nat int | Infinity bool | NaN

fun bit_length :: "nat \<Rightarrow> nat" where
  "bit_length n = (if n = 0 then 0 else Suc (bit_length (n div 2)))"

declare bit_length.simps [simp del]

definition floor_log2_from :: "nat \<Rightarrow> nat \<Rightarrow> int \<Rightarrow> int" where
  \<comment> \<open>\<open>l\<close> or \<open>l - 1\<close>, whichever is \<open>\<lfloor>log\<^sub>2 (n / d)\<rfloor>\<close>\<close>
  "floor_log2_from n d l =
     (if (if 0 \<le> l then push_bit (nat l) d \<le> n else d \<le> push_bit (nat (- l)) n)
      then l else l - 1)"

definition floor_log2 :: "nat \<Rightarrow> nat \<Rightarrow> int" where
  \<comment> \<open>\<open>\<lfloor>log\<^sub>2 (n / d)\<rfloor>\<close> for \<open>0 < n\<close>, \<open>0 < d\<close>\<close>
  "floor_log2 n d = floor_log2_from n d (int (bit_length n) - int (bit_length d))"

definition round_up_if :: "nat \<Rightarrow> nat \<Rightarrow> nat \<Rightarrow> nat" where
  \<comment> \<open>quotient \<open>q\<close> and remainder \<open>r\<close> of a division by \<open>den\<close>: up when the remainder
      is over a half, or is a half and \<open>q\<close> is odd\<close>
  "round_up_if q r den = (if den < 2 * r \<or> (2 * r = den \<and> odd q) then q + 1 else q)"

definition round_half_even :: "nat \<Rightarrow> nat \<Rightarrow> nat" where
  \<comment> \<open>the integer nearest to \<open>num / den\<close>, a tie going to the even one\<close>
  "round_half_even num den = round_up_if (num div den) (num mod den) den"

definition pack_float32 :: "bool \<Rightarrow> nat \<Rightarrow> int \<Rightarrow> float32" where
  \<comment> \<open>a significand rounded up to \<open>2^24\<close> moves to the next binade; past the largest
      exponent the result is an infinity\<close>
  "pack_float32 s m e =
     (if m = 16777216 then (if 104 < e + 1 then Infinity s else Finite s 8388608 (e + 1))
      else if 104 < e then Infinity s else Finite s m e)"

definition round_at :: "bool \<Rightarrow> nat \<Rightarrow> nat \<Rightarrow> int \<Rightarrow> int \<Rightarrow> float32" where
  \<comment> \<open>\<open>(n / d) * 2^t\<close> rounded to an integer significand of exponent \<open>e\<close>\<close>
  "round_at s n d t e =
     (if 0 \<le> t then pack_float32 s (round_half_even (push_bit (nat t) n) d) e
      else pack_float32 s (round_half_even n (push_bit (nat (- t)) d)) e)"

definition float32_exponent :: "nat \<Rightarrow> nat \<Rightarrow> int \<Rightarrow> int" where
  \<comment> \<open>the exponent of the last significand bit of \<open>(n / d) * 2^k\<close>: 23 below the leading
      bit, and never below that of the subnormals\<close>
  "float32_exponent n d k = max (- 149) (k + floor_log2 n d - 23)"

definition round_to :: "bool \<Rightarrow> nat \<Rightarrow> nat \<Rightarrow> int \<Rightarrow> int \<Rightarrow> float32" where
  "round_to s n d k e = round_at s n d (k - e) e"

definition round_float32 :: "bool \<Rightarrow> nat \<Rightarrow> nat \<Rightarrow> int \<Rightarrow> float32" where
  \<comment> \<open>the binary32 nearest to \<open>(-1)^s * (n / d) * 2^k\<close>, for \<open>0 < d\<close>\<close>
  "round_float32 s n d k =
     (if n = 0 then Finite s 0 (- 149) else round_to s n d k (float32_exponent n d k))"

fun fneg :: "float32 \<Rightarrow> float32" where
  "fneg (Finite s m e) = Finite (\<not> s) m e"
| "fneg (Infinity s) = Infinity (\<not> s)"
| "fneg NaN = NaN"

definition aligned :: "bool \<Rightarrow> nat \<Rightarrow> int \<Rightarrow> int \<Rightarrow> int" where
  \<comment> \<open>\<open>(-1)^s * m * 2^e\<close> as a multiple of \<open>2^k\<close>, for \<open>k \<le> e\<close>\<close>
  "aligned s m e k = push_bit (nat (e - k)) (if s then - int m else int m)"

definition round_sum :: "bool \<Rightarrow> int \<Rightarrow> int \<Rightarrow> float32" where
  \<comment> \<open>\<open>v * 2^k\<close> rounded; an exact zero sum takes the sign \<open>z\<close>\<close>
  "round_sum z v k =
     (if v = 0 then Finite z 0 (- 149) else round_float32 (v < 0) (nat \<bar>v\<bar>) 1 k)"

fun fadd :: "float32 \<Rightarrow> float32 \<Rightarrow> float32" where
  "fadd NaN _ = NaN"
| "fadd _ NaN = NaN"
| "fadd (Infinity s) (Infinity s') = (if s = s' then Infinity s else NaN)"
| "fadd (Infinity s) (Finite _ _ _) = Infinity s"
| "fadd (Finite _ _ _) (Infinity s) = Infinity s"
| "fadd (Finite s m e) (Finite s' m' e') =
     round_sum (s \<and> s') (aligned s m e (min e e') + aligned s' m' e' (min e e')) (min e e')"

definition fsub :: "float32 \<Rightarrow> float32 \<Rightarrow> float32" where
  "fsub a b = fadd a (fneg b)"

fun fmul :: "float32 \<Rightarrow> float32 \<Rightarrow> float32" where
  "fmul NaN _ = NaN"
| "fmul _ NaN = NaN"
| "fmul (Infinity s) (Infinity s') = Infinity (s \<noteq> s')"
| "fmul (Infinity s) (Finite s' m e) = (if m = 0 then NaN else Infinity (s \<noteq> s'))"
| "fmul (Finite s m e) (Infinity s') = (if m = 0 then NaN else Infinity (s \<noteq> s'))"
| "fmul (Finite s m e) (Finite s' m' e') = round_float32 (s \<noteq> s') (m * m') 1 (e + e')"

fun fdiv :: "float32 \<Rightarrow> float32 \<Rightarrow> float32" where
  "fdiv NaN _ = NaN"
| "fdiv _ NaN = NaN"
| "fdiv (Infinity s) (Infinity s') = NaN"
| "fdiv (Infinity s) (Finite s' m e) = Infinity (s \<noteq> s')"
| "fdiv (Finite s m e) (Infinity s') = Finite (s \<noteq> s') 0 (- 149)"
| "fdiv (Finite s m e) (Finite s' m' e') =
     (if m' = 0 then (if m = 0 then NaN else Infinity (s \<noteq> s'))
      else round_float32 (s \<noteq> s') m m' (e - e'))"

definition float_literal :: "bool \<Rightarrow> nat \<Rightarrow> nat \<Rightarrow> float32" where
  \<comment> \<open>the \<^verbatim>\<open>float\<close> a decimal literal \<open>(-1)^s * n / d\<close> with suffix \<^verbatim>\<open>F\<close> denotes;
      also the conversion of an \<^verbatim>\<open>int\<close> constant passed as \<^verbatim>\<open>GLfloat\<close>\<close>
  "float_literal s n d = round_float32 s n d 0"

section \<open>View state and keyboard input\<close>

text \<open>
  The locals \<^verbatim>\<open>max_iterations\<close>, \<^verbatim>\<open>scale\<close>, \<^verbatim>\<open>x\<close>, \<^verbatim>\<open>y\<close> of \<^verbatim>\<open>main\<close>
  (the offsets are the fields \<open>view_x\<close> and \<open>view_y\<close>).
\<close>

record view =
  max_iterations :: "32 word"
  scale :: float32
  view_x :: float32
  view_y :: float32

definition initial_view :: view where
  "initial_view =
     \<lparr>max_iterations = 30, scale = float_literal False 1 1,
      view_x = float_literal False 0 1, view_y = float_literal False 0 1\<rparr>"

datatype scancode =
    SDL_SCANCODE_W | SDL_SCANCODE_S | SDL_SCANCODE_A | SDL_SCANCODE_D
  | SDL_SCANCODE_Z | SDL_SCANCODE_X | SDL_SCANCODE_R | SDL_SCANCODE_E
  | SDL_SCANCODE_UNKNOWN

datatype event = SDL_KEYDOWN scancode | SDL_QUIT | SDL_OTHER_EVENT

text \<open>
  The body of \<^verbatim>\<open>case SDL_KEYDOWN\<close>: \<^verbatim>\<open>move_delta\<close> is computed once, from the scale
  before the key is applied, and four \<^verbatim>\<open>if\<close>/\<^verbatim>\<open>else if\<close> statements follow one another.
\<close>

definition move_y :: "scancode \<Rightarrow> float32 \<Rightarrow> view \<Rightarrow> view" where
  "move_y scancode move_delta v =
     (if scancode = SDL_SCANCODE_W then v\<lparr>view_y := fadd (view_y v) move_delta\<rparr>
      else if scancode = SDL_SCANCODE_S then v\<lparr>view_y := fsub (view_y v) move_delta\<rparr>
      else v)"

definition move_x :: "scancode \<Rightarrow> float32 \<Rightarrow> view \<Rightarrow> view" where
  "move_x scancode move_delta v =
     (if scancode = SDL_SCANCODE_A then v\<lparr>view_x := fsub (view_x v) move_delta\<rparr>
      else if scancode = SDL_SCANCODE_D then v\<lparr>view_x := fadd (view_x v) move_delta\<rparr>
      else v)"

definition zoom :: "scancode \<Rightarrow> view \<Rightarrow> view" where
  "zoom scancode v =
     (if scancode = SDL_SCANCODE_Z
      then v\<lparr>scale := fadd (scale v) (fmul (float_literal False 1 10) (scale v))\<rparr>
      else if scancode = SDL_SCANCODE_X
      then v\<lparr>scale := fsub (scale v) (fmul (float_literal False 1 10) (scale v))\<rparr>
      else v)"

definition iterations :: "scancode \<Rightarrow> view \<Rightarrow> view" where
  "iterations scancode v =
     (if scancode = SDL_SCANCODE_R then v\<lparr>max_iterations := max_iterations v + 1\<rparr>
      else if scancode = SDL_SCANCODE_E
      then (if 0 < max_iterations v then v\<lparr>max_iterations := max_iterations v - 1\<rparr> else v)
      else v)"

definition keydown :: "scancode \<Rightarrow> view \<Rightarrow> view" where
  "keydown scancode v =
     iterations scancode
       (zoom scancode
         (move_x scancode (fdiv (float_literal False 1 10) (scale v))
           (move_y scancode (fdiv (float_literal False 1 10) (scale v)) v)))"

text \<open>The \<^verbatim>\<open>switch\<close> on the event type; the second component is \<^verbatim>\<open>running\<close>.\<close>

fun handle_event :: "event \<Rightarrow> view \<times> bool \<Rightarrow> view \<times> bool" where
  "handle_event (SDL_KEYDOWN scancode) (v, running) = (keydown scancode v, running)"
| "handle_event SDL_QUIT (v, running) = (v, False)"
| "handle_event SDL_OTHER_EVENT (v, running) = (v, running)"

section \<open>Calls into OpenGL, SDL and the standard error stream\<close>

text \<open>
  What the program does to the outside is the sequence of its library calls, in order. A
  call that hands a value back (a generated name, a status, a polled event) carries that
  value as its last argument.
\<close>

datatype shader_type = GL_VERTEX_SHADER | GL_FRAGMENT_SHADER

datatype gl_attribute =
    SDL_GL_CONTEXT_PROFILE_MASK | SDL_GL_CONTEXT_MAJOR_VERSION
  | SDL_GL_CONTEXT_MINOR_VERSION | SDL_GL_DOUBLEBUFFER

datatype attribute_value = SDL_GL_CONTEXT_PROFILE_CORE | Attribute_int int

datatype call =
    SDL_Init int
  | SDL_GL_SetAttribute gl_attribute attribute_value
  | SDL_CreateWindow string int int nat
  | SDL_GL_CreateContext nat nat
  | glewInit
  | SDL_GL_DeleteContext nat
  | SDL_DestroyWindow nat
  | SDL_Quit
  | SDL_PollEvent "event option"
  | SDL_GL_SwapWindow nat
  | SDL_Delay nat
  | cerr string
  | glGenBuffers GLuint
  | glDeleteBuffers GLuint
  | glBindBuffer GLuint
  | glBufferData "float32 list"
  | glGenVertexArrays GLuint
  | glDeleteVertexArrays GLuint
  | glBindVertexArray GLuint
  | glVertexAttribPointer nat nat
  | glEnableVertexAttribArray nat
  | glCreateShader shader_type GLuint
  | glDeleteShader GLuint
  | glShaderSource GLuint string
  | glCompileShader GLuint
  | glGetShaderiv GLuint GLint
  | glCreateProgram GLuint
  | glDeleteProgram GLuint
  | glAttachShader GLuint GLuint
  | glLinkProgram GLuint
  | glGetProgramiv GLuint GLint
  | glDetachShader GLuint GLuint
  | glUseProgram GLuint
  | glUniform1f nat float32
  | glUniform2f nat float32 float32
  | glUniform1ui nat GLuint
  | glClear
  | glDrawArrays nat nat

text \<open>
  A piece of the program runs to one of four ends: it returns a value, it throws, it calls
  \<^verbatim>\<open>std::terminate\<close> (an exception left a \<^verbatim>\<open>noexcept\<close> function), or the events
  supplied to the model end while the loop is still running (\<open>Pending\<close>).
\<close>

datatype exn = runtime_error string

datatype 'a outcome = Returned 'a | Thrown exn | Terminated | Pending

type_synonym 'a run = "call list \<times> 'a outcome"

fun and_then :: "'a run \<Rightarrow> ('a \<Rightarrow> 'b run) \<Rightarrow> 'b run" where
  "and_then (cs, Returned a) f = (case f a of (cs', r) \<Rightarrow> (cs @ cs', r))"
| "and_then (cs, Thrown e) f = (cs, Thrown e)"
| "and_then (cs, Terminated) f = (cs, Terminated)"
| "and_then (cs, Pending) f = (cs, Pending)"

section \<open>The owned handle \<^verbatim>\<open>GLobject\<close>\<close>

text \<open>
  \<^verbatim>\<open>deleter_type\<close> is \<^verbatim>\<open>std::function<void(GLuint)>\<close>: empty (\<open>None\<close>) or holding
  a callable, given by the calls it makes on an index. Calling an empty one throws
  \<^verbatim>\<open>std::bad_function_call\<close>; the destructor is \<^verbatim>\<open>noexcept\<close>, so there the throw
  ends in \<^verbatim>\<open>std::terminate\<close>.
\<close>

type_synonym deleter_type = "(GLuint \<Rightarrow> call list) option"

record GLobject =
  index :: GLuint
  deleter :: deleter_type

definition GLobject_dtor :: "GLobject \<Rightarrow> unit run" where
  "GLobject_dtor g =
     (case deleter g of None \<Rightarrow> ([], Terminated) | Some d \<Rightarrow> (d (index g), Returned ()))"

text \<open>
  The standard leaves a moved-from \<^verbatim>\<open>std::function\<close> in a valid but unspecified state.
  The two states implementations leave it in: empty (libstdc++, MSVC), or still holding
  its target (libc++, for a callable kept in the small buffer).
\<close>

datatype moved_from = Emptied | Retained

fun function_moved_from :: "moved_from \<Rightarrow> deleter_type \<Rightarrow> deleter_type" where
  "function_moved_from Emptied d = None"
| "function_moved_from Retained d = d"

text \<open>
  Objects live at addresses; the special members act on the object at \<^verbatim>\<open>this\<close> and
  on the one their argument refers to. An address that holds no object is left alone.
\<close>

type_synonym objects = "nat \<Rightarrow> GLobject option"

definition GLobject_ctor :: "nat \<Rightarrow> GLuint \<Rightarrow> deleter_type \<Rightarrow> objects \<Rightarrow> objects" where
  "GLobject_ctor this i d objs = objs(this \<mapsto> \<lparr>index = i, deleter = d\<rparr>)"

definition GLobject_move_ctor :: "moved_from \<Rightarrow> nat \<Rightarrow> nat \<Rightarrow> objects \<Rightarrow> objects" where
  "GLobject_move_ctor lib this globject objs =
     (case objs globject of
        None \<Rightarrow> objs
      | Some g \<Rightarrow>
          objs(globject \<mapsto> \<lparr>index = 0, deleter = function_moved_from lib (deleter g)\<rparr>,
               this \<mapsto> \<lparr>index = index g, deleter = deleter g\<rparr>))"

definition GLobject_move_assign :: "moved_from \<Rightarrow> nat \<Rightarrow> nat \<Rightarrow> objects \<Rightarrow> objects" where
  "GLobject_move_assign lib this globject objs =
     (if this = globject then objs
      else case objs globject of
        None \<Rightarrow> objs
      | Some g \<Rightarrow>
          objs(globject \<mapsto> g\<lparr>deleter := function_moved_from lib (deleter g)\<rparr>,
               this \<mapsto> \<lparr>index = index g, deleter = deleter g\<rparr>))"

definition destroy :: "nat \<Rightarrow> objects \<Rightarrow> objects \<times> unit run" where
  \<comment> \<open>the end of the lifetime of the object at \<open>this\<close>\<close>
  "destroy this objs =
     (case objs this of
        None \<Rightarrow> (objs, ([], Returned ()))
      | Some g \<Rightarrow> (objs(this := None), GLobject_dtor g))"

text \<open>Scope exits, for a local object held by value.\<close>

fun leave_scope :: "GLobject \<Rightarrow> 'a run \<Rightarrow> 'a run" where
  \<comment> \<open>the local is destroyed when its block is left, by \<^verbatim>\<open>return\<close> or by an exception\<close>
  "leave_scope g (cs, Terminated) = (cs, Terminated)"
| "leave_scope g (cs, Pending) = (cs, Pending)"
| "leave_scope g (cs, r) =
     (case GLobject_dtor g of
        (cs', Returned u) \<Rightarrow> (cs @ cs', r)
      | (cs', _) \<Rightarrow> (cs @ cs', Terminated))"

fun unwind :: "GLobject \<Rightarrow> 'a run \<Rightarrow> 'a run" where
  \<comment> \<open>the local named by the \<^verbatim>\<open>return\<close> statement: it is the caller's object when the
      function returns, and is destroyed when an exception leaves the function\<close>
  "unwind g (cs, Thrown e) =
     (case GLobject_dtor g of
        (cs', Returned u) \<Rightarrow> (cs @ cs', Thrown e)
      | (cs', _) \<Rightarrow> (cs @ cs', Terminated))"
| "unwind g (cs, r) = (cs, r)"

section \<open>Resource factories\<close>

text \<open>
  The answers of the OpenGL implementation during one run: the names it generates and the
  statuses it reports. \<^verbatim>\<open>create_shader\<close> runs once for each shader type, so its
  answers are given per type.

  Each factory ends in \<^verbatim>\<open>return\<close> of a named local. The local is built in the caller's
  object (copy elision, which GCC, Clang and MSVC perform on these returns), so no move
  constructor runs there: the object is destroyed inside the factory only when an
  exception leaves it.
\<close>

record gl_driver =
  gen_buffer :: GLuint
  gen_vertex_array :: GLuint
  created_shader :: "shader_type \<Rightarrow> GLuint"
  compile_status :: "shader_type \<Rightarrow> GLint"
  created_program :: GLuint
  link_status :: GLint

definition GL_FALSE :: GLint where
  "GL_FALSE = 0"

definition rectangle_data :: "float32 list" where
  "rectangle_data =
     [float_literal True 1 1, float_literal True 1 1, float_literal False 0 1,
      float_literal False 1 1, float_literal True 1 1, float_literal False 0 1,
      float_literal False 1 1, float_literal False 1 1, float_literal False 0 1,
      float_literal False 1 1, float_literal False 1 1, float_literal False 0 1,
      float_literal True 1 1, float_literal False 1 1, float_literal False 0 1,
      float_literal True 1 1, float_literal True 1 1, float_literal False 0 1]"

definition create_rectangle_buffer :: "gl_driver \<Rightarrow> GLobject run" where
  "create_rectangle_buffer drv =
     and_then
       ([glGenBuffers (gen_buffer drv)],
        if gen_buffer drv = 0 then Thrown (runtime_error ''buffer generation error'')
        else Returned (gen_buffer drv))
       (\<lambda>name.
          let buffer = \<lparr>index = name, deleter = Some (\<lambda>buffer. [glDeleteBuffers buffer])\<rparr>
          in unwind buffer
               ([glBindBuffer (index buffer), glBufferData rectangle_data, glBindBuffer 0],
                Returned buffer))"

definition create_rectangle_vertex_array_object :: "gl_driver \<Rightarrow> GLobject \<Rightarrow> GLobject run" where
  "create_rectangle_vertex_array_object drv rectangle_buffer =
     and_then
       ([glGenVertexArrays (gen_vertex_array drv)],
        if gen_vertex_array drv = 0
        then Thrown (runtime_error ''vertex array object generation error'')
        else Returned (gen_vertex_array drv))
       (\<lambda>name.
          let vertex_array_object =
                \<lparr>index = name,
                 deleter = Some (\<lambda>vertex_array_object. [glDeleteVertexArrays vertex_array_object])\<rparr>
          in unwind vertex_array_object
               ([glBindVertexArray (index vertex_array_object),
                 glBindBuffer (index rectangle_buffer),
                 glVertexAttribPointer 0 3,
                 glEnableVertexAttribArray 0,
                 glBindBuffer 0,
                 glBindVertexArray 0],
                Returned vertex_array_object))"

definition create_shader :: "gl_driver \<Rightarrow> string \<Rightarrow> shader_type \<Rightarrow> GLobject run" where
  "create_shader drv source shader_type =
     and_then
       ([glCreateShader shader_type (created_shader drv shader_type)],
        if created_shader drv shader_type = 0
        then Thrown (runtime_error ''shader creation error'')
        else Returned (created_shader drv shader_type))
       (\<lambda>name.
          let shader = \<lparr>index = name, deleter = Some (\<lambda>shader. [glDeleteShader shader])\<rparr>
          in unwind shader
               ([glShaderSource (index shader) source,
                 glCompileShader (index shader),
                 glGetShaderiv (index shader) (compile_status drv shader_type)],
                if compile_status drv shader_type = GL_FALSE
                then Thrown (runtime_error ''shader compilation error'')
                else Returned shader))"

definition create_shader_program :: "gl_driver \<Rightarrow> string \<Rightarrow> string \<Rightarrow> GLobject run" where
  "create_shader_program drv vertex_shader_source fragment_shader_source =
     and_then
       ([glCreateProgram (created_program drv)],
        if created_program drv = 0
        then Thrown (runtime_error ''shader program creation error'')
        else Returned (created_program drv))
       (\<lambda>name.
          let shader_program =
                \<lparr>index = name, deleter = Some (\<lambda>shader_program. [glDeleteProgram shader_program])\<rparr>
          in unwind shader_program
               (and_then (create_shader drv vertex_shader_source GL_VERTEX_SHADER)
                  (\<lambda>vertex_shader. leave_scope vertex_shader
                     (and_then (create_shader drv fragment_shader_source GL_FRAGMENT_SHADER)
                        (\<lambda>fragment_shader. leave_scope fragment_shader
                           (and_then
                              ([glAttachShader (index shader_program) (index vertex_shader),
                                glAttachShader (index shader_program) (index fragment_shader),
                                glLinkProgram (index shader_program),
                                glGetProgramiv (index shader_program) (link_status drv)],
                               if link_status drv = GL_FALSE
                               then Thrown (runtime_error ''failed to link shader program'')
                               else Returned ())
                              (\<lambda>u.
                                 ([glDetachShader (index shader_program) (index vertex_shader),
                                   glDetachShader (index shader_program) (index fragment_shader)],
                                  Returned shader_program))))))))"

text \<open>
  \<^verbatim>\<open>read_file\<close> tests the stream once, after it is opened, and then builds the string
  from stream-buffer iterators. What the file system answers for a path: the file cannot
  be opened; it is opened and reading it throws inside the library; or it is opened and
  read, with the characters it yields. Only the failed open gets the message of
  \<^verbatim>\<open>read_file\<close>. A throwing read leaves with the library's exception
  (\<^verbatim>\<open>std::ios_base::failure\<close> in libstdc++, a \<^verbatim>\<open>std::runtime_error\<close> through
  \<^verbatim>\<open>std::system_error\<close>) and the library's message; a library whose stream buffer
  reports a failed read as the end of the file gives the characters read so far.
\<close>

datatype file_answer = Cannot_open | Read_throws string | Contents string

definition read_file :: "(string \<Rightarrow> file_answer) \<Rightarrow> string \<Rightarrow> string run" where
  "read_file fs file_path =
     (case fs file_path of
        Cannot_open \<Rightarrow> ([], Thrown (runtime_error ''file reading error''))
      | Read_throws what \<Rightarrow> ([], Thrown (runtime_error what))
      | Contents contents \<Rightarrow> ([], Returned contents))"

section \<open>The application loop\<close>

definition WINDOW_WIDTH :: nat where
  "WINDOW_WIDTH = 800"

definition WINDOW_HEIGHT :: nat where
  "WINDOW_HEIGHT = 600"

text \<open>
  \<^verbatim>\<open>while (::SDL_PollEvent(&event))\<close>: the events handed out by the successive polls of
  one frame, then the poll that finds the queue empty.
\<close>

fun poll_events :: "event list \<Rightarrow> view \<times> bool \<Rightarrow> call list \<times> view \<times> bool" where
  "poll_events [] st = ([SDL_PollEvent None], st)"
| "poll_events (ev # evs) st =
     (case poll_events evs (handle_event ev st) of
        (cs, st') \<Rightarrow> (SDL_PollEvent (Some ev) # cs, st'))"

definition upload_and_draw :: "GLuint \<Rightarrow> GLuint \<Rightarrow> view \<Rightarrow> call list" where
  "upload_and_draw shader_program rectangle_vertex_array_object v =
     [glUseProgram shader_program,
      glUniform1f 0 (float_literal False WINDOW_WIDTH 1),
      glUniform1f 1 (float_literal False WINDOW_HEIGHT 1),
      glUniform2f 2 (fadd (fdiv (float_literal True 2 1) (scale v)) (view_x v))
                    (fadd (fdiv (float_literal False 1 1) (scale v)) (view_x v)),
      glUniform2f 3 (fadd (fdiv (float_literal True 1 1) (scale v)) (view_y v))
                    (fadd (fdiv (float_literal False 1 1) (scale v)) (view_y v)),
      glUniform1ui 4 (max_iterations v),
      glClear,
      glBindVertexArray rectangle_vertex_array_object,
      glDrawArrays 0 6,
      glBindVertexArray 0,
      glUseProgram 0]"

definition iteration :: "nat \<Rightarrow> GLuint \<Rightarrow> GLuint \<Rightarrow> event list \<Rightarrow> view \<Rightarrow> call list \<times> view \<times> bool" where
  \<comment> \<open>one pass through the body of \<^verbatim>\<open>while (running)\<close>\<close>
  "iteration window shader_program rectangle_vertex_array_object evs v =
     (case poll_events evs (v, True) of
        (cs, v', running) \<Rightarrow>
          (cs @ upload_and_draw shader_program rectangle_vertex_array_object v'
              @ [SDL_GL_SwapWindow window, SDL_Delay 30],
           v', running))"

fun run_loop :: "nat \<Rightarrow> GLuint \<Rightarrow> GLuint \<Rightarrow> view \<Rightarrow> event list list \<Rightarrow> unit run" where
  "run_loop window shader_program rectangle_vertex_array_object v [] = ([], Pending)"
| "run_loop window shader_program rectangle_vertex_array_object v (evs # frames) =
     (case iteration window shader_program rectangle_vertex_array_object evs v of
        (cs, v', running) \<Rightarrow>
          if running
          then (case run_loop window shader_program rectangle_vertex_array_object v' frames of
                  (cs', r) \<Rightarrow> (cs @ cs', r))
          else (cs, Returned ()))"

text \<open>
  The two \<^verbatim>\<open>read_file\<close> calls are the arguments of one call, which the compiler may
  evaluate in either order.
\<close>

datatype argument_order = Left_to_right | Right_to_left

text \<open>
  What the surroundings answer during one run of \<^verbatim>\<open>main\<close>. \<open>polled\<close> lists, frame
  by frame, the events the polls hand out.
\<close>

record env =
  sdl_init :: int
  sdl_error :: string
  created_window :: nat
  created_context :: nat
  driver :: gl_driver
  files :: "string \<Rightarrow> file_answer"
  argument_order :: argument_order
  polled :: "event list list"

definition read_sources :: "env \<Rightarrow> (string \<times> string) run" where
  \<comment> \<open>the arguments \<^verbatim>\<open>read_file("res/mandelbrot_shader.vs")\<close> and
      \<^verbatim>\<open>read_file("res/mandelbrot_shader.fs")\<close>; an exception of the one evaluated first
      keeps the other from being evaluated\<close>
  "read_sources e =
     (case argument_order e of
        Left_to_right \<Rightarrow>
          and_then (read_file (files e) ''res/mandelbrot_shader.vs'')
            (\<lambda>vertex_shader_source.
               and_then (read_file (files e) ''res/mandelbrot_shader.fs'')
                 (\<lambda>fragment_shader_source.
                    ([], Returned (vertex_shader_source, fragment_shader_source))))
      | Right_to_left \<Rightarrow>
          and_then (read_file (files e) ''res/mandelbrot_shader.fs'')
            (\<lambda>fragment_shader_source.
               and_then (read_file (files e) ''res/mandelbrot_shader.vs'')
                 (\<lambda>vertex_shader_source.
                    ([], Returned (vertex_shader_source, fragment_shader_source)))))"

text \<open>
  The body of \<^verbatim>\<open>try\<close>. Both files are read before \<^verbatim>\<open>create_shader_program\<close> is
  entered. The three handles are destroyed in reverse order when the block is left. As in
  the factories, each handle is built in place from the factory's result: no handle of
  \<^verbatim>\<open>main\<close> is moved.
\<close>

definition try_block :: "env \<Rightarrow> unit run" where
  "try_block e =
     and_then (create_rectangle_buffer (driver e))
       (\<lambda>rectangle_buffer. leave_scope rectangle_buffer
          (and_then (create_rectangle_vertex_array_object (driver e) rectangle_buffer)
             (\<lambda>rectangle_vertex_array_object. leave_scope rectangle_vertex_array_object
                (and_then (read_sources e)
                   (\<lambda>sources.
                      and_then
                        (create_shader_program (driver e) (fst sources) (snd sources))
                        (\<lambda>shader_program. leave_scope shader_program
                           (run_loop (created_window e) (index shader_program)
                              (index rectangle_vertex_array_object)
                              initial_view (polled e))))))))"

fun catch_exception :: "unit run \<Rightarrow> unit run" where
  \<comment> \<open>\<^verbatim>\<open>catch(const std::exception& ex)\<close> prints \<^verbatim>\<open>ex.what()\<close>\<close>
  "catch_exception (cs, Thrown (runtime_error what)) = (cs @ [cerr what], Returned ())"
| "catch_exception (cs, r) = (cs, r)"

definition with_context :: "env \<Rightarrow> unit run" where
  "with_context e =
     and_then ([SDL_GL_CreateContext (created_window e) (created_context e)], Returned ())
       (\<lambda>u. if created_context e \<noteq> 0
             then and_then ([glewInit], Returned ())
                    (\<lambda>u. and_then (catch_exception (try_block e))
                       (\<lambda>u. ([SDL_GL_DeleteContext (created_context e)], Returned ())))
             else ([cerr (''SDL_GLContext creation error: '' @ sdl_error e)], Returned ()))"

definition with_window :: "env \<Rightarrow> unit run" where
  "with_window e =
     and_then
       ([SDL_GL_SetAttribute SDL_GL_CONTEXT_PROFILE_MASK SDL_GL_CONTEXT_PROFILE_CORE,
         SDL_GL_SetAttribute SDL_GL_CONTEXT_MAJOR_VERSION (Attribute_int 4),
         SDL_GL_SetAttribute SDL_GL_CONTEXT_MINOR_VERSION (Attribute_int 5),
         SDL_GL_SetAttribute SDL_GL_DOUBLEBUFFER (Attribute_int 1),
         SDL_CreateWindow ''MandelbrotGL'' (int WINDOW_WIDTH) (int WINDOW_HEIGHT)
           (created_window e)],
        Returned ())
       (\<lambda>u. if created_window e \<noteq> 0
             then and_then (with_context e)
                    (\<lambda>u. ([SDL_DestroyWindow (created_window e)], Returned ()))
             else ([cerr (''SDL_Window creation error: '' @ sdl_error e)], Returned ()))"

definition main :: "env \<Rightarrow> int run" where
  "main e =
     and_then
       (and_then ([SDL_Init (sdl_init e)], Returned ())
          (\<lambda>u. if 0 \<le> sdl_init e
                then and_then (with_window e) (\<lambda>u. ([SDL_Quit], Returned ()))
                else ([cerr (''SDL2 initialization error: '' @ sdl_error e)], Returned ())))
       (\<lambda>u. ([], Returned 0))"

section \<open>Reading a sequence of calls\<close>

text \<open>
  The shader and program names a sequence of calls creates (a failed creation hands out 0,
  which names nothing), the names it releases, and the name a factory hands to its caller.
\<close>

fun created :: "call \<Rightarrow> GLuint list" where
  "created (glCreateProgram p) = (if p = 0 then [] else [p])"
| "created (glCreateShader t s) = (if s = 0 then [] else [s])"
| "created _ = []"

fun released :: "call \<Rightarrow> GLuint list" where
  "released (glDeleteProgram p) = [p]"
| "released (glDeleteShader s) = [s]"
| "released _ = []"

fun escaped :: "GLobject outcome \<Rightarrow> GLuint list" where
  "escaped (Returned g) = [index g]"
| "escaped _ = []"

fun pressed :: "event \<Rightarrow> scancode option" where
  "pressed (SDL_KEYDOWN scancode) = Some scancode"
| "pressed _ = None"

section \<open>Evaluation of the arithmetic\<close>

lemma bit_length_numeral [simp]:
  "bit_length 0 = 0"
  "bit_length 1 = 1"
  "bit_length (numeral Num.One) = 1"
  "bit_length (numeral (Num.Bit0 k)) = Suc (bit_length (numeral k))"
  "bit_length (numeral (Num.Bit1 k)) = Suc (bit_length (numeral k))"
  by (simp_all add: bit_length.simps [of 0] bit_length.simps [of 1]
      bit_length.simps [of "Suc 0"] bit_length.simps [of "numeral (Num.Bit0 k)"]
      bit_length.simps [of "numeral (Num.Bit1 k)"])

lemmas float32_eval =
  floor_log2_from_def floor_log2_def round_up_if_def round_half_even_def pack_float32_def
  round_at_def float32_exponent_def round_to_def round_float32_def aligned_def round_sum_def
  float_literal_def

text \<open>The literals of the program: \<^verbatim>\<open>0.1F\<close> is \<open>13421773 * 2^-27\<close>, bit pattern 3DCCCCCD.\<close>

lemma literals:
  "float_literal False 1 10 = Finite False 13421773 (- 27)"
  "float_literal False 1 1 = Finite False 8388608 (- 23)"
  "float_literal True 1 1 = Finite True 8388608 (- 23)"
  "float_literal True 2 1 = Finite True 8388608 (- 22)"
  "float_literal False 0 1 = Finite False 0 (- 149)"
  "float_literal False WINDOW_WIDTH 1 = Finite False 13107200 (- 14)"
  "float_literal False WINDOW_HEIGHT 1 = Finite False 9830400 (- 14)"
  by (simp_all add: float32_eval WINDOW_WIDTH_def WINDOW_HEIGHT_def)

text \<open>
  Known values: \<^verbatim>\<open>0.1F + 0.2F\<close> is \<^verbatim>\<open>0.3F\<close> (3E99999A), \<^verbatim>\<open>1.0F / 3.0F\<close> is 3EAAAAAB,
  twice the largest finite number overflows, the smallest subnormal halves to zero (a tie,
  to even), and the operations without a value give NaN.
\<close>

lemma float32_examples:
  "fadd (float_literal False 1 10) (float_literal False 2 10) = Finite False 10066330 (- 25)"
  "float_literal False 3 10 = Finite False 10066330 (- 25)"
  "fdiv (float_literal False 1 1) (float_literal False 3 1) = Finite False 11184811 (- 25)"
  "fmul (Finite False 16777215 104) (float_literal False 2 1) = Infinity False"
  "fmul (Finite False 1 (- 149)) (float_literal False 1 2) = Finite False 0 (- 149)"
  "fdiv (float_literal False 1 1) (float_literal False 0 1) = Infinity False"
  "fdiv (float_literal False 0 1) (float_literal True 0 1) = NaN"
  "fsub (Infinity False) (Infinity False) = NaN"
  by (simp_all add: float32_eval fsub_def)

section \<open>The iteration count\<close>

lemmas keydown_defs = keydown_def move_x_def move_y_def zoom_def iterations_def

lemma max_iterations_keydown:
  "max_iterations (keydown k v) =
     (if k = SDL_SCANCODE_R then max_iterations v + 1
      else if k = SDL_SCANCODE_E \<and> 0 < max_iterations v then max_iterations v - 1
      else max_iterations v)"
  by (simp add: keydown_defs)

text \<open>
  C5. The count is an unsigned number, so after any sequence of events it is not negative.
  The decrease key at count 0 leaves the count at 0, and in general it takes one off the
  count without going below zero (the subtraction is that of the natural numbers).
\<close>

theorem decrease_floor_at_zero:
  "0 \<le> uint (max_iterations (fst (fold handle_event evs (v, running))))
   \<and> max_iterations (keydown SDL_SCANCODE_E (v\<lparr>max_iterations := 0\<rparr>)) = 0
   \<and> unat (max_iterations (keydown SDL_SCANCODE_E v)) = unat (max_iterations v) - 1"
  by (simp add: max_iterations_keydown unat_minus_one word_greater_zero_iff)

text \<open>
  C10. The increase key adds one modulo \<open>2^32\<close>: at \<open>2^32 - 1\<close> the count wraps to 0, so
  an increase can make the count smaller, while it is never negative.
\<close>

theorem increase_wraps:
  "max_iterations (keydown SDL_SCANCODE_R (v\<lparr>max_iterations := 4294967295\<rparr>)) = 0
   \<and> unat (max_iterations (keydown SDL_SCANCODE_R v)) = (unat (max_iterations v) + 1) mod 2 ^ 32
   \<and> unat (max_iterations (keydown SDL_SCANCODE_R (v\<lparr>max_iterations := 4294967295\<rparr>)))
       < unat (max_iterations (v\<lparr>max_iterations := 4294967295\<rparr>))
   \<and> 0 \<le> uint (max_iterations (keydown SDL_SCANCODE_R v))"
  by (simp add: max_iterations_keydown unat_word_ariths)

section \<open>Pan and zoom\<close>

text \<open>
  C6, as the code has it. Each pan key replaces its offset by the binary32 sum or
  difference of the offset and \<^verbatim>\<open>move_delta\<close>, the binary32 quotient \<^verbatim>\<open>0.1F / scale\<close> taken
  before the key is applied; each zoom key replaces the scale by the binary32 sum or
  difference of the scale and the binary32 product \<^verbatim>\<open>0.1F * scale\<close>. A pan key changes
  nothing but its own offset and a zoom key nothing but the scale; the keys R and E and
  an undefined key leave the offsets and the scale as they are. From the initial view one
  press of D, A, W or S puts the offset at \<^verbatim>\<open>0.1F\<close> or \<^verbatim>\<open>-0.1F\<close>, and one press of Z or X
  puts the scale at \<open>9227469 * 2^-23\<close> or \<open>15099494 * 2^-24\<close>.
\<close>

theorem keys_update_view:
  "keydown SDL_SCANCODE_W v
     = v\<lparr>view_y := fadd (view_y v) (fdiv (float_literal False 1 10) (scale v))\<rparr>
   \<and> keydown SDL_SCANCODE_S v
     = v\<lparr>view_y := fsub (view_y v) (fdiv (float_literal False 1 10) (scale v))\<rparr>
   \<and> keydown SDL_SCANCODE_A v
     = v\<lparr>view_x := fsub (view_x v) (fdiv (float_literal False 1 10) (scale v))\<rparr>
   \<and> keydown SDL_SCANCODE_D v
     = v\<lparr>view_x := fadd (view_x v) (fdiv (float_literal False 1 10) (scale v))\<rparr>
   \<and> keydown SDL_SCANCODE_Z v
     = v\<lparr>scale := fadd (scale v) (fmul (float_literal False 1 10) (scale v))\<rparr>
   \<and> keydown SDL_SCANCODE_X v
     = v\<lparr>scale := fsub (scale v) (fmul (float_literal False 1 10) (scale v))\<rparr>
   \<and> scale (keydown SDL_SCANCODE_R v) = scale v
   \<and> view_x (keydown SDL_SCANCODE_R v) = view_x v
   \<and> view_y (keydown SDL_SCANCODE_R v) = view_y v
   \<and> scale (keydown SDL_SCANCODE_E v) = scale v
   \<and> view_x (keydown SDL_SCANCODE_E v) = view_x v
   \<and> view_y (keydown SDL_SCANCODE_E v) = view_y v
   \<and> keydown SDL_SCANCODE_UNKNOWN v = v
   \<and> float_literal False 1 10 = Finite False 13421773 (- 27)
   \<and> view_x (keydown SDL_SCANCODE_D initial_view) = Finite False 13421773 (- 27)
   \<and> view_x (keydown SDL_SCANCODE_A initial_view) = Finite True 13421773 (- 27)
   \<and> view_y (keydown SDL_SCANCODE_W initial_view) = Finite False 13421773 (- 27)
   \<and> view_y (keydown SDL_SCANCODE_S initial_view) = Finite True 13421773 (- 27)
   \<and> scale (keydown SDL_SCANCODE_Z initial_view) = Finite False 9227469 (- 23)
   \<and> scale (keydown SDL_SCANCODE_X initial_view) = Finite False 15099494 (- 24)"
  by (simp add: keydown_defs initial_view_def float32_eval fsub_def)

text \<open>
  C6 as stated fails: the offset does not always change by \<^verbatim>\<open>0.1 / scale\<close>. At offset
  \<open>x = 1\<close> and scale \<open>2^30\<close> the step \<^verbatim>\<open>0.1F / scale\<close> is \<open>13421773 * 2^-57\<close>, not zero
  but under half a unit in the last place of 1, and the key D leaves \<open>x\<close> at 1. From the
  initial view, the third press of D takes \<open>x\<close> from \<^verbatim>\<open>0.2F\<close> to \<^verbatim>\<open>0.3F\<close>: the two
  differ by \<open>13421774 * 2^-27\<close> (the subtraction is exact), the step is
  \<open>13421773 * 2^-27\<close>.
\<close>

theorem pan_step_rounded:
  "fdiv (float_literal False 1 10) (Finite False 8388608 7) = Finite False 13421773 (- 57)
   \<and> view_x (keydown SDL_SCANCODE_D
        \<lparr>max_iterations = 30, scale = Finite False 8388608 7,
         view_x = Finite False 8388608 (- 23), view_y = Finite False 0 (- 149)\<rparr>)
       = Finite False 8388608 (- 23)
   \<and> fdiv (float_literal False 1 10)
        (scale (fold keydown [SDL_SCANCODE_D, SDL_SCANCODE_D] initial_view))
       = Finite False 13421773 (- 27)
   \<and> fsub (view_x (fold keydown [SDL_SCANCODE_D, SDL_SCANCODE_D, SDL_SCANCODE_D] initial_view))
        (view_x (fold keydown [SDL_SCANCODE_D, SDL_SCANCODE_D] initial_view))
       = Finite False 13421774 (- 27)"
  by (simp add: keydown_defs initial_view_def float32_eval fsub_def)

section \<open>The bounds sent to the shader\<close>

text \<open>
  C7, as the code has it. The pair sent to location 2 is \<^verbatim>\<open>-2.0F / scale\<close> and
  \<^verbatim>\<open>1.0F / scale\<close>, each offset by \<open>x\<close>; the pair sent to location 3 is
  \<^verbatim>\<open>-1.0F / scale\<close> and \<^verbatim>\<open>1.0F / scale\<close>, each offset by \<open>y\<close>. Location 2 does not
  depend on \<open>y\<close> and location 3 does not depend on \<open>x\<close>: each axis has its own offset.
\<close>

theorem bounds_offsets:
  "upload_and_draw p vao v ! 3 =
     glUniform2f 2 (fadd (fdiv (float_literal True 2 1) (scale v)) (view_x v))
                   (fadd (fdiv (float_literal False 1 1) (scale v)) (view_x v))
   \<and> upload_and_draw p vao v ! 4 =
     glUniform2f 3 (fadd (fdiv (float_literal True 1 1) (scale v)) (view_y v))
                   (fadd (fdiv (float_literal False 1 1) (scale v)) (view_y v))
   \<and> upload_and_draw p vao (v\<lparr>view_y := b\<rparr>) ! 3 = upload_and_draw p vao v ! 3
   \<and> upload_and_draw p vao (v\<lparr>view_x := a\<rparr>) ! 4 = upload_and_draw p vao v ! 4"
  by (simp add: upload_and_draw_def)

text \<open>
  C7 as stated fails: the vertical bounds do not take their offset from \<open>x\<close>. After one
  press of D from the initial view, \<open>x\<close> is \<^verbatim>\<open>0.1F\<close> and \<open>y\<close> is 0; the pair sent to
  location 3 is \<open>(-1, 1)\<close>, where an offset by \<open>x\<close> would have given \<open>(-0.9, 1.1)\<close>.
\<close>

theorem vertical_bounds_use_y:
  "view_x (keydown SDL_SCANCODE_D initial_view) = Finite False 13421773 (- 27)
   \<and> view_y (keydown SDL_SCANCODE_D initial_view) = Finite False 0 (- 149)
   \<and> scale (keydown SDL_SCANCODE_D initial_view) = Finite False 8388608 (- 23)
   \<and> upload_and_draw 3 2 (keydown SDL_SCANCODE_D initial_view) ! 4
       = glUniform2f 3 (Finite True 8388608 (- 23)) (Finite False 8388608 (- 23))
   \<and> glUniform2f 3
        (fadd (fdiv (float_literal True 1 1) (scale (keydown SDL_SCANCODE_D initial_view)))
           (view_x (keydown SDL_SCANCODE_D initial_view)))
        (fadd (fdiv (float_literal False 1 1) (scale (keydown SDL_SCANCODE_D initial_view)))
           (view_x (keydown SDL_SCANCODE_D initial_view)))
       = glUniform2f 3 (Finite True 15099494 (- 24)) (Finite False 9227469 (- 23))"
  by (simp add: upload_and_draw_def keydown_defs initial_view_def float32_eval)

section \<open>Lifetime of an owned handle\<close>

text \<open>
  Move construction hands the index and the deleter to the new handle and zeroes the index
  of the source. The new handle releases the index once; the destructor of the source
  calls its moved-from deleter on 0, which the deleting calls of OpenGL ignore, or ends in
  \<^verbatim>\<open>std::terminate\<close> where that deleter is empty.
\<close>

lemma move_ctor_transfers:
  assumes "this \<noteq> globject" and "objs globject = Some b" and "deleter b = Some d"
  shows "snd (destroy this (GLobject_move_ctor lib this globject objs))
           = (d (index b), Returned ())
   \<and> snd (destroy globject (GLobject_move_ctor lib this globject objs))
       = (case lib of Retained \<Rightarrow> (d 0, Returned ()) | Emptied \<Rightarrow> ([], Terminated))"
  using assms
  by (cases lib) (simp_all add: destroy_def GLobject_move_ctor_def GLobject_dtor_def)

text \<open>
  C1 fails on move assignment. Two handles own the buffers 5 and 7; the second is
  move-assigned to the first, then both are destroyed. Buffer 7 is released by the first
  handle and, where the moved-from deleter keeps its target, a second time by the second;
  where the deleter is emptied, the second destructor ends in \<^verbatim>\<open>std::terminate\<close>.
  Buffer 5 is released by neither.
\<close>

theorem move_assign_leaks:
  "snd (destroy 1 (GLobject_move_assign Retained 1 2
          (GLobject_ctor 2 7 (Some (\<lambda>buffer. [glDeleteBuffers buffer]))
            (GLobject_ctor 1 5 (Some (\<lambda>buffer. [glDeleteBuffers buffer])) Map.empty))))
     = ([glDeleteBuffers 7], Returned ())
   \<and> snd (destroy 2 (GLobject_move_assign Retained 1 2
          (GLobject_ctor 2 7 (Some (\<lambda>buffer. [glDeleteBuffers buffer]))
            (GLobject_ctor 1 5 (Some (\<lambda>buffer. [glDeleteBuffers buffer])) Map.empty))))
     = ([glDeleteBuffers 7], Returned ())
   \<and> snd (destroy 1 (GLobject_move_assign Emptied 1 2
          (GLobject_ctor 2 7 (Some (\<lambda>buffer. [glDeleteBuffers buffer]))
            (GLobject_ctor 1 5 (Some (\<lambda>buffer. [glDeleteBuffers buffer])) Map.empty))))
     = ([glDeleteBuffers 7], Returned ())
   \<and> snd (destroy 2 (GLobject_move_assign Emptied 1 2
          (GLobject_ctor 2 7 (Some (\<lambda>buffer. [glDeleteBuffers buffer]))
            (GLobject_ctor 1 5 (Some (\<lambda>buffer. [glDeleteBuffers buffer])) Map.empty))))
     = ([], Terminated)"
  by (simp add: destroy_def GLobject_move_assign_def GLobject_ctor_def GLobject_dtor_def)

text \<open>
  C2, as the code has it. Move assignment of the handle at \<open>globject\<close> to another, live
  handle at \<open>this\<close> makes no call: the index and deleter \<open>this\<close> held are overwritten
  unreleased. The source keeps its index, and its deleter is in the moved-from state. The
  destructor of \<open>this\<close> then releases the transferred index; the destructor of the source
  releases it a second time where the moved-from deleter keeps its target, and ends in
  \<^verbatim>\<open>std::terminate\<close>, releasing nothing, where the deleter is emptied.
\<close>

theorem move_assign_source_keeps_index:
  assumes "this \<noteq> globject" and "objs this = Some a" and "objs globject = Some b"
    and "deleter b = Some d"
  shows "GLobject_move_assign lib this globject objs
           = objs(globject \<mapsto> b\<lparr>deleter := function_moved_from lib (Some d)\<rparr>,
                  this \<mapsto> \<lparr>index = index b, deleter = Some d\<rparr>)
   \<and> snd (destroy this (GLobject_move_assign lib this globject objs))
       = (d (index b), Returned ())
   \<and> snd (destroy globject (GLobject_move_assign lib this globject objs))
       = (case lib of Retained \<Rightarrow> (d (index b), Returned ()) | Emptied \<Rightarrow> ([], Terminated))"
  using assms
  by (cases lib) (simp_all add: destroy_def GLobject_move_assign_def GLobject_dtor_def)

theorem move_assign_source_keeps_index_witness:
  "(1 :: nat) \<noteq> 2
   \<and> snd (destroy 1 (GLobject_move_assign Retained 1 2
        (Map.empty(1 \<mapsto> \<lparr>index = 5, deleter = Some (\<lambda>buffer. [glDeleteBuffers buffer])\<rparr>,
                   2 \<mapsto> \<lparr>index = 7, deleter = Some (\<lambda>buffer. [glDeleteBuffers buffer])\<rparr>))))
       = ([glDeleteBuffers 7], Returned ())
   \<and> snd (destroy 2 (GLobject_move_assign Retained 1 2
        (Map.empty(1 \<mapsto> \<lparr>index = 5, deleter = Some (\<lambda>buffer. [glDeleteBuffers buffer])\<rparr>,
                   2 \<mapsto> \<lparr>index = 7, deleter = Some (\<lambda>buffer. [glDeleteBuffers buffer])\<rparr>))))
       = ([glDeleteBuffers 7], Returned ())"
  using move_assign_source_keeps_index
    [of 1 2 "Map.empty(1 \<mapsto> \<lparr>index = 5, deleter = Some (\<lambda>buffer. [glDeleteBuffers buffer])\<rparr>,
                       2 \<mapsto> \<lparr>index = 7, deleter = Some (\<lambda>buffer. [glDeleteBuffers buffer])\<rparr>)"
        "\<lparr>index = 5, deleter = Some (\<lambda>buffer. [glDeleteBuffers buffer])\<rparr>"
        "\<lparr>index = 7, deleter = Some (\<lambda>buffer. [glDeleteBuffers buffer])\<rparr>"
        "\<lambda>buffer. [glDeleteBuffers buffer]" Retained]
  by (simp add: destroy_def GLobject_dtor_def)

text \<open>
  C2 as stated fails where the moved-from \<^verbatim>\<open>std::function\<close> is empty: the destructor of
  the source calls no deleter on the transferred index 7; the call of the empty function
  throws, and the destructor ends in \<^verbatim>\<open>std::terminate\<close>.
\<close>

theorem emptied_source_releases_nothing:
  "index (the (GLobject_move_assign Emptied 1 2
        (Map.empty(1 \<mapsto> \<lparr>index = 5, deleter = Some (\<lambda>buffer. [glDeleteBuffers buffer])\<rparr>,
                   2 \<mapsto> \<lparr>index = 7, deleter = Some (\<lambda>buffer. [glDeleteBuffers buffer])\<rparr>))
        2)) = 7
   \<and> snd (destroy 2 (GLobject_move_assign Emptied 1 2
        (Map.empty(1 \<mapsto> \<lparr>index = 5, deleter = Some (\<lambda>buffer. [glDeleteBuffers buffer])\<rparr>,
                   2 \<mapsto> \<lparr>index = 7, deleter = Some (\<lambda>buffer. [glDeleteBuffers buffer])\<rparr>))))
       = ([], Terminated)"
  by (simp add: destroy_def GLobject_move_assign_def GLobject_dtor_def)

section \<open>The factories\<close>

lemma create_rectangle_buffer_eq:
  "create_rectangle_buffer drv =
     (if gen_buffer drv = 0
      then ([glGenBuffers 0], Thrown (runtime_error ''buffer generation error''))
      else ([glGenBuffers (gen_buffer drv), glBindBuffer (gen_buffer drv),
             glBufferData rectangle_data, glBindBuffer 0],
            Returned \<lparr>index = gen_buffer drv,
                       deleter = Some (\<lambda>buffer. [glDeleteBuffers buffer])\<rparr>))"
  by (simp add: create_rectangle_buffer_def)

lemma create_rectangle_vertex_array_object_eq:
  "create_rectangle_vertex_array_object drv rectangle_buffer =
     (if gen_vertex_array drv = 0
      then ([glGenVertexArrays 0],
            Thrown (runtime_error ''vertex array object generation error''))
      else ([glGenVertexArrays (gen_vertex_array drv),
             glBindVertexArray (gen_vertex_array drv),
             glBindBuffer (index rectangle_buffer),
             glVertexAttribPointer 0 3,
             glEnableVertexAttribArray 0,
             glBindBuffer 0,
             glBindVertexArray 0],
            Returned \<lparr>index = gen_vertex_array drv,
                       deleter = Some (\<lambda>vertex_array_object.
                         [glDeleteVertexArrays vertex_array_object])\<rparr>))"
  by (simp add: create_rectangle_vertex_array_object_def)

lemma create_shader_eq:
  "create_shader drv source t =
     (if created_shader drv t = 0
      then ([glCreateShader t 0], Thrown (runtime_error ''shader creation error''))
      else if compile_status drv t = GL_FALSE
      then ([glCreateShader t (created_shader drv t),
             glShaderSource (created_shader drv t) source,
             glCompileShader (created_shader drv t),
             glGetShaderiv (created_shader drv t) GL_FALSE,
             glDeleteShader (created_shader drv t)],
            Thrown (runtime_error ''shader compilation error''))
      else ([glCreateShader t (created_shader drv t),
             glShaderSource (created_shader drv t) source,
             glCompileShader (created_shader drv t),
             glGetShaderiv (created_shader drv t) (compile_status drv t)],
            Returned \<lparr>index = created_shader drv t,
                       deleter = Some (\<lambda>shader. [glDeleteShader shader])\<rparr>))"
  by (simp add: create_shader_def GLobject_dtor_def)

lemma create_shader_program_outcome:
  "snd (create_shader_program drv vs fs) =
     (if created_program drv = 0
      then Thrown (runtime_error ''shader program creation error'')
      else if created_shader drv GL_VERTEX_SHADER = 0
      then Thrown (runtime_error ''shader creation error'')
      else if compile_status drv GL_VERTEX_SHADER = GL_FALSE
      then Thrown (runtime_error ''shader compilation error'')
      else if created_shader drv GL_FRAGMENT_SHADER = 0
      then Thrown (runtime_error ''shader creation error'')
      else if compile_status drv GL_FRAGMENT_SHADER = GL_FALSE
      then Thrown (runtime_error ''shader compilation error'')
      else if link_status drv = GL_FALSE
      then Thrown (runtime_error ''failed to link shader program'')
      else Returned \<lparr>index = created_program drv,
                      deleter = Some (\<lambda>shader_program. [glDeleteProgram shader_program])\<rparr>)"
  by (simp add: create_shader_program_def create_shader_eq GLobject_dtor_def)

text \<open>
  C4, as the code has it: the calls and the outcome of each factory, for every answer of
  the driver. Each factory throws its own message when the allocation hands out 0, having
  made no other call. On a valid name the buffer and the vertex-array factories configure
  the object and return the handle that owns it. The shader factory returns the handle
  when the compilation succeeds; otherwise it deletes the shader and throws. The program
  factory returns the handle when both shaders are built and the link succeeds; on each of
  its five failures after the allocation it deletes the shaders built so far, the later
  one first, then the program, and throws.
\<close>

theorem factories_check_allocation:
  "create_rectangle_buffer drv =
     (if gen_buffer drv = 0
      then ([glGenBuffers 0], Thrown (runtime_error ''buffer generation error''))
      else ([glGenBuffers (gen_buffer drv), glBindBuffer (gen_buffer drv),
             glBufferData rectangle_data, glBindBuffer 0],
            Returned \<lparr>index = gen_buffer drv,
                       deleter = Some (\<lambda>buffer. [glDeleteBuffers buffer])\<rparr>))
   \<and> create_rectangle_vertex_array_object drv rectangle_buffer =
     (if gen_vertex_array drv = 0
      then ([glGenVertexArrays 0],
            Thrown (runtime_error ''vertex array object generation error''))
      else ([glGenVertexArrays (gen_vertex_array drv),
             glBindVertexArray (gen_vertex_array drv),
             glBindBuffer (index rectangle_buffer),
             glVertexAttribPointer 0 3,
             glEnableVertexAttribArray 0,
             glBindBuffer 0,
             glBindVertexArray 0],
            Returned \<lparr>index = gen_vertex_array drv,
                       deleter = Some (\<lambda>vertex_array_object.
                         [glDeleteVertexArrays vertex_array_object])\<rparr>))
   \<and> create_shader drv source t =
     (if created_shader drv t = 0
      then ([glCreateShader t 0], Thrown (runtime_error ''shader creation error''))
      else if compile_status drv t = GL_FALSE
      then ([glCreateShader t (created_shader drv t),
             glShaderSource (created_shader drv t) source,
             glCompileShader (created_shader drv t),
             glGetShaderiv (created_shader drv t) GL_FALSE,
             glDeleteShader (created_shader drv t)],
            Thrown (runtime_error ''shader compilation error''))
      else ([glCreateShader t (created_shader drv t),
             glShaderSource (created_shader drv t) source,
             glCompileShader (created_shader drv t),
             glGetShaderiv (created_shader drv t) (compile_status drv t)],
            Returned \<lparr>index = created_shader drv t,
                       deleter = Some (\<lambda>shader. [glDeleteShader shader])\<rparr>))
   \<and> create_shader_program drv vs fs =
     (if created_program drv = 0
      then ([glCreateProgram 0], Thrown (runtime_error ''shader program creation error''))
      else if created_shader drv GL_VERTEX_SHADER = 0
      then ([glCreateProgram (created_program drv),
             glCreateShader GL_VERTEX_SHADER 0,
             glDeleteProgram (created_program drv)],
            Thrown (runtime_error ''shader creation error''))
      else if compile_status drv GL_VERTEX_SHADER = GL_FALSE
      then ([glCreateProgram (created_program drv),
             glCreateShader GL_VERTEX_SHADER (created_shader drv GL_VERTEX_SHADER),
             glShaderSource (created_shader drv GL_VERTEX_SHADER) vs,
             glCompileShader (created_shader drv GL_VERTEX_SHADER),
             glGetShaderiv (created_shader drv GL_VERTEX_SHADER) GL_FALSE,
             glDeleteShader (created_shader drv GL_VERTEX_SHADER),
             glDeleteProgram (created_program drv)],
            Thrown (runtime_error ''shader compilation error''))
      else if created_shader drv GL_FRAGMENT_SHADER = 0
      then ([glCreateProgram (created_program drv),
             glCreateShader GL_VERTEX_SHADER (created_shader drv GL_VERTEX_SHADER),
             glShaderSource (created_shader drv GL_VERTEX_SHADER) vs,
             glCompileShader (created_shader drv GL_VERTEX_SHADER),
             glGetShaderiv (created_shader drv GL_VERTEX_SHADER)
               (compile_status drv GL_VERTEX_SHADER),
             glCreateShader GL_FRAGMENT_SHADER 0,
             glDeleteShader (created_shader drv GL_VERTEX_SHADER),
             glDeleteProgram (created_program drv)],
            Thrown (runtime_error ''shader creation error''))
      else if compile_status drv GL_FRAGMENT_SHADER = GL_FALSE
      then ([glCreateProgram (created_program drv),
             glCreateShader GL_VERTEX_SHADER (created_shader drv GL_VERTEX_SHADER),
             glShaderSource (created_shader drv GL_VERTEX_SHADER) vs,
             glCompileShader (created_shader drv GL_VERTEX_SHADER),
             glGetShaderiv (created_shader drv GL_VERTEX_SHADER)
               (compile_status drv GL_VERTEX_SHADER),
             glCreateShader GL_FRAGMENT_SHADER (created_shader drv GL_FRAGMENT_SHADER),
             glShaderSource (created_shader drv GL_FRAGMENT_SHADER) fs,
             glCompileShader (created_shader drv GL_FRAGMENT_SHADER),
             glGetShaderiv (created_shader drv GL_FRAGMENT_SHADER) GL_FALSE,
             glDeleteShader (created_shader drv GL_FRAGMENT_SHADER),
             glDeleteShader (created_shader drv GL_VERTEX_SHADER),
             glDeleteProgram (created_program drv)],
            Thrown (runtime_error ''shader compilation error''))
      else if link_status drv = GL_FALSE
      then ([glCreateProgram (created_program drv),
             glCreateShader GL_VERTEX_SHADER (created_shader drv GL_VERTEX_SHADER),
             glShaderSource (created_shader drv GL_VERTEX_SHADER) vs,
             glCompileShader (created_shader drv GL_VERTEX_SHADER),
             glGetShaderiv (created_shader drv GL_VERTEX_SHADER)
               (compile_status drv GL_VERTEX_SHADER),
             glCreateShader GL_FRAGMENT_SHADER (created_shader drv GL_FRAGMENT_SHADER),
             glShaderSource (created_shader drv GL_FRAGMENT_SHADER) fs,
             glCompileShader (created_shader drv GL_FRAGMENT_SHADER),
             glGetShaderiv (created_shader drv GL_FRAGMENT_SHADER)
               (compile_status drv GL_FRAGMENT_SHADER),
             glAttachShader (created_program drv) (created_shader drv GL_VERTEX_SHADER),
             glAttachShader (created_program drv) (created_shader drv GL_FRAGMENT_SHADER),
             glLinkProgram (created_program drv),
             glGetProgramiv (created_program drv) GL_FALSE,
             glDeleteShader (created_shader drv GL_FRAGMENT_SHADER),
             glDeleteShader (created_shader drv GL_VERTEX_SHADER),
             glDeleteProgram (created_program drv)],
            Thrown (runtime_error ''failed to link shader program''))
      else ([glCreateProgram (created_program drv),
             glCreateShader GL_VERTEX_SHADER (created_shader drv GL_VERTEX_SHADER),
             glShaderSource (created_shader drv GL_VERTEX_SHADER) vs,
             glCompileShader (created_shader drv GL_VERTEX_SHADER),
             glGetShaderiv (created_shader drv GL_VERTEX_SHADER)
               (compile_status drv GL_VERTEX_SHADER),
             glCreateShader GL_FRAGMENT_SHADER (created_shader drv GL_FRAGMENT_SHADER),
             glShaderSource (created_shader drv GL_FRAGMENT_SHADER) fs,
             glCompileShader (created_shader drv GL_FRAGMENT_SHADER),
             glGetShaderiv (created_shader drv GL_FRAGMENT_SHADER)
               (compile_status drv GL_FRAGMENT_SHADER),
             glAttachShader (created_program drv) (created_shader drv GL_VERTEX_SHADER),
             glAttachShader (created_program drv) (created_shader drv GL_FRAGMENT_SHADER),
             glLinkProgram (created_program drv),
             glGetProgramiv (created_program drv) (link_status drv),
             glDetachShader (created_program drv) (created_shader drv GL_VERTEX_SHADER),
             glDetachShader (created_program drv) (created_shader drv GL_FRAGMENT_SHADER),
             glDeleteShader (created_shader drv GL_FRAGMENT_SHADER),
             glDeleteShader (created_shader drv GL_VERTEX_SHADER)],
            Returned \<lparr>index = created_program drv,
                       deleter = Some (\<lambda>shader_program. [glDeleteProgram shader_program])\<rparr>))"
  by (simp add: create_rectangle_buffer_eq create_rectangle_vertex_array_object_eq
      create_shader_eq create_shader_program_def GLobject_dtor_def)


theorem factories_check_allocation_witness:
  "create_shader_program
     \<lparr>gen_buffer = 1, gen_vertex_array = 2,
      created_shader = (\<lambda>t. if t = GL_VERTEX_SHADER then 4 else 0),
      compile_status = (\<lambda>t. 1), created_program = 3, link_status = 1\<rparr> ''v'' ''f''
   = ([glCreateProgram 3,
       glCreateShader GL_VERTEX_SHADER 4, glShaderSource 4 ''v'', glCompileShader 4,
       glGetShaderiv 4 1,
       glCreateShader GL_FRAGMENT_SHADER 0,
       glDeleteShader 4, glDeleteProgram 3],
      Thrown (runtime_error ''shader creation error''))
   \<and> create_rectangle_vertex_array_object
     \<lparr>gen_buffer = 1, gen_vertex_array = 2,
      created_shader = (\<lambda>t. if t = GL_VERTEX_SHADER then 4 else 0),
      compile_status = (\<lambda>t. 1), created_program = 3, link_status = 1\<rparr>
     \<lparr>index = 1, deleter = Some (\<lambda>buffer. [glDeleteBuffers buffer])\<rparr>
   = ([glGenVertexArrays 2, glBindVertexArray 2, glBindBuffer 1, glVertexAttribPointer 0 3,
       glEnableVertexAttribArray 0, glBindBuffer 0, glBindVertexArray 0],
      Returned \<lparr>index = 2, deleter = Some (\<lambda>vertex_array_object.
                       [glDeleteVertexArrays vertex_array_object])\<rparr>)"
  using factories_check_allocation
    [where drv = "\<lparr>gen_buffer = 1, gen_vertex_array = 2,
           created_shader = (\<lambda>t. if t = GL_VERTEX_SHADER then 4 else 0),
           compile_status = (\<lambda>t. 1), created_program = 3, link_status = 1\<rparr>"
       and rectangle_buffer = "\<lparr>index = 1, deleter = Some (\<lambda>buffer. [glDeleteBuffers buffer])\<rparr>"
       and source = "''v''" and t = GL_VERTEX_SHADER and vs = "''v''" and fs = "''f''"]
  by (simp add: GL_FALSE_def)

text \<open>
  C4 as stated fails: on a valid allocation a factory need not return the handle. The
  shader factory is handed the name 5 and the compilation fails: it throws, and the
  shader is deleted.
\<close>

theorem shader_factory_throws_on_valid_name:
  "create_shader
     \<lparr>gen_buffer = 1, gen_vertex_array = 2, created_shader = (\<lambda>t. 5),
      compile_status = (\<lambda>t. 0), created_program = 3, link_status = 1\<rparr>
     ''void main() {'' GL_VERTEX_SHADER
   = ([glCreateShader GL_VERTEX_SHADER 5, glShaderSource 5 ''void main() {'',
       glCompileShader 5, glGetShaderiv 5 0, glDeleteShader 5],
      Thrown (runtime_error ''shader compilation error''))"
  by (simp add: create_shader_eq GL_FALSE_def)

text \<open>
  C3. When the program and the two shaders are created and compiled, the factory attaches
  and links; whether the link fails or succeeds, the fragment shader and then the vertex
  shader are deleted before the factory is left. On a failed link the program is deleted
  too and \<^verbatim>\<open>failed to link shader program\<close> is thrown; on success the shaders are
  detached first and the program is returned. For every answer of the driver, the names
  released, followed by the one handed to the caller, are the names created in reverse
  order: nothing created stays behind unowned.
\<close>

theorem program_factory_releases_shaders:
  assumes "created_program drv \<noteq> 0"
    and "created_shader drv GL_VERTEX_SHADER \<noteq> 0"
    and "created_shader drv GL_FRAGMENT_SHADER \<noteq> 0"
    and "compile_status drv GL_VERTEX_SHADER \<noteq> GL_FALSE"
    and "compile_status drv GL_FRAGMENT_SHADER \<noteq> GL_FALSE"
  shows "create_shader_program drv vs fs =
     ([glCreateProgram (created_program drv),
       glCreateShader GL_VERTEX_SHADER (created_shader drv GL_VERTEX_SHADER),
       glShaderSource (created_shader drv GL_VERTEX_SHADER) vs,
       glCompileShader (created_shader drv GL_VERTEX_SHADER),
       glGetShaderiv (created_shader drv GL_VERTEX_SHADER) (compile_status drv GL_VERTEX_SHADER),
       glCreateShader GL_FRAGMENT_SHADER (created_shader drv GL_FRAGMENT_SHADER),
       glShaderSource (created_shader drv GL_FRAGMENT_SHADER) fs,
       glCompileShader (created_shader drv GL_FRAGMENT_SHADER),
       glGetShaderiv (created_shader drv GL_FRAGMENT_SHADER)
         (compile_status drv GL_FRAGMENT_SHADER),
       glAttachShader (created_program drv) (created_shader drv GL_VERTEX_SHADER),
       glAttachShader (created_program drv) (created_shader drv GL_FRAGMENT_SHADER),
       glLinkProgram (created_program drv),
       glGetProgramiv (created_program drv) (link_status drv)]
      @ (if link_status drv = GL_FALSE
         then [glDeleteShader (created_shader drv GL_FRAGMENT_SHADER),
               glDeleteShader (created_shader drv GL_VERTEX_SHADER),
               glDeleteProgram (created_program drv)]
         else [glDetachShader (created_program drv) (created_shader drv GL_VERTEX_SHADER),
               glDetachShader (created_program drv) (created_shader drv GL_FRAGMENT_SHADER),
               glDeleteShader (created_shader drv GL_FRAGMENT_SHADER),
               glDeleteShader (created_shader drv GL_VERTEX_SHADER)]),
      if link_status drv = GL_FALSE then Thrown (runtime_error ''failed to link shader program'')
      else Returned \<lparr>index = created_program drv,
                     deleter = Some (\<lambda>shader_program. [glDeleteProgram shader_program])\<rparr>)
   \<and> (\<forall>any. concat (map released (fst (create_shader_program any vs fs)))
          @ escaped (snd (create_shader_program any vs fs))
        = rev (concat (map created (fst (create_shader_program any vs fs)))))"
  using assms by (simp add: create_shader_program_def create_shader_eq GLobject_dtor_def)

theorem program_factory_releases_shaders_witness:
  "create_shader_program
     \<lparr>gen_buffer = 1, gen_vertex_array = 2,
      created_shader = (\<lambda>t. if t = GL_VERTEX_SHADER then 4 else 5),
      compile_status = (\<lambda>t. 1), created_program = 3, link_status = 0\<rparr> ''v'' ''f''
   = ([glCreateProgram 3,
       glCreateShader GL_VERTEX_SHADER 4, glShaderSource 4 ''v'', glCompileShader 4,
       glGetShaderiv 4 1,
       glCreateShader GL_FRAGMENT_SHADER 5, glShaderSource 5 ''f'', glCompileShader 5,
       glGetShaderiv 5 1,
       glAttachShader 3 4, glAttachShader 3 5, glLinkProgram 3, glGetProgramiv 3 0,
       glDeleteShader 5, glDeleteShader 4, glDeleteProgram 3],
      Thrown (runtime_error ''failed to link shader program''))"
  using program_factory_releases_shaders
    [of "\<lparr>gen_buffer = 1, gen_vertex_array = 2,
          created_shader = (\<lambda>t. if t = GL_VERTEX_SHADER then 4 else 5),
          compile_status = (\<lambda>t. 1), created_program = 3, link_status = 0\<rparr>" "''v''" "''f''"]
  by (simp add: GL_FALSE_def)

section \<open>One iteration of the loop\<close>

lemma poll_events_eq:
  "poll_events evs st =
     (map (\<lambda>ev. SDL_PollEvent (Some ev)) evs @ [SDL_PollEvent None], fold handle_event evs st)"
  by (induction evs arbitrary: st) simp_all

lemma running_fold:
  "snd (fold handle_event evs (v, running)) = (running \<and> SDL_QUIT \<notin> set evs)"
proof (induction evs arbitrary: v running)
  case Nil
  show ?case by simp
next
  case (Cons ev evs)
  show ?case by (cases ev) (simp_all add: Cons.IH)
qed

lemma view_fold:
  "fst (fold handle_event evs (v, running)) = fold keydown (List.map_filter pressed evs) v"
proof (induction evs arbitrary: v running)
  case Nil
  show ?case by (simp add: List.map_filter_simps)
next
  case (Cons ev evs)
  then show ?case by (cases ev) (simp_all add: List.map_filter_simps)
qed

lemma iteration_eq:
  "iteration w p vao evs v =
     (map (\<lambda>ev. SDL_PollEvent (Some ev)) evs @ [SDL_PollEvent None]
        @ upload_and_draw p vao (fst (fold handle_event evs (v, True)))
        @ [SDL_GL_SwapWindow w, SDL_Delay 30],
      fst (fold handle_event evs (v, True)), SDL_QUIT \<notin> set evs)"
  by (simp add: iteration_def poll_events_eq split_beta running_fold prod_eq_iff)

lemma run_loop_Cons:
  "run_loop w p vao v (evs # frames) =
     (if SDL_QUIT \<in> set evs then (fst (iteration w p vao evs v), Returned ())
      else (fst (iteration w p vao evs v)
              @ fst (run_loop w p vao (fst (fold handle_event evs (v, True))) frames),
            snd (run_loop w p vao (fst (fold handle_event evs (v, True))) frames)))"
  by (simp add: iteration_eq split_beta)

lemma run_loop_outcome:
  "snd (run_loop w p vao v frames) =
     (if \<exists>f \<in> set frames. SDL_QUIT \<in> set f then Returned () else Pending)"
  by (induction frames arbitrary: v) (simp_all add: run_loop_Cons del: run_loop.simps(2))

lemma polls_are_not_delays:
  "count_list (map (\<lambda>ev. SDL_PollEvent (Some ev)) evs) (SDL_Delay n) = 0"
  by (induction evs) simp_all

lemma polls_are_not_draws:
  "filter (\<lambda>c. \<exists>first n. c = glDrawArrays first n) (map (\<lambda>ev. SDL_PollEvent (Some ev)) evs) = []"
  by (induction evs) simp_all

lemma one_delay_per_iteration:
  "count_list (fst (iteration w p vao evs v)) (SDL_Delay 30) = 1"
  by (simp add: iteration_eq upload_and_draw_def polls_are_not_delays)

lemma run_loop_stops:
  "\<forall>f \<in> set pre. SDL_QUIT \<notin> set f \<Longrightarrow> SDL_QUIT \<in> set f \<Longrightarrow>
   snd (run_loop w p vao v (pre @ f # post)) = Returned ()
   \<and> count_list (fst (run_loop w p vao v (pre @ f # post))) (SDL_Delay 30) = length pre + 1"
  by (induction pre arbitrary: v)
    (simp_all add: run_loop_Cons one_delay_per_iteration del: run_loop.simps(2))

text \<open>
  C8. One iteration polls until the queue is empty, each event being handled as it is
  handed out: a key-down event applies its key to the view (the nine keys are listed, an
  undefined key leaves the view as it is), a quit event clears \<^verbatim>\<open>running\<close>, any other
  event does nothing. Then the iteration binds the program, sends the window size, the
  bounds and the iteration count of the view as it stands after all the events, clears,
  draws the six vertices once, swaps the window and delays 30 ms, in this order. The loop
  runs one iteration per frame; the iteration that polls a quit event is completed and is
  the last, and while no quit event arrives the loop goes on.
\<close>

theorem loop_iteration_sequence:
  "(let v' = fold keydown (List.map_filter pressed evs) v in
    iteration w p vao evs v =
     (map (\<lambda>ev. SDL_PollEvent (Some ev)) evs @ [SDL_PollEvent None]
        @ [glUseProgram p,
           glUniform1f 0 (float_literal False 800 1),
           glUniform1f 1 (float_literal False 600 1),
           glUniform2f 2 (fadd (fdiv (float_literal True 2 1) (scale v')) (view_x v'))
                         (fadd (fdiv (float_literal False 1 1) (scale v')) (view_x v')),
           glUniform2f 3 (fadd (fdiv (float_literal True 1 1) (scale v')) (view_y v'))
                         (fadd (fdiv (float_literal False 1 1) (scale v')) (view_y v')),
           glUniform1ui 4 (max_iterations v'),
           glClear,
           glBindVertexArray vao,
           glDrawArrays 0 6,
           glBindVertexArray 0,
           glUseProgram 0,
           SDL_GL_SwapWindow w,
           SDL_Delay 30],
      v', SDL_QUIT \<notin> set evs))
   \<and> pressed (SDL_KEYDOWN k) = Some k \<and> pressed SDL_QUIT = None
   \<and> pressed SDL_OTHER_EVENT = None
   \<and> keydown SDL_SCANCODE_W v
       = v\<lparr>view_y := fadd (view_y v) (fdiv (float_literal False 1 10) (scale v))\<rparr>
   \<and> keydown SDL_SCANCODE_S v
       = v\<lparr>view_y := fsub (view_y v) (fdiv (float_literal False 1 10) (scale v))\<rparr>
   \<and> keydown SDL_SCANCODE_A v
       = v\<lparr>view_x := fsub (view_x v) (fdiv (float_literal False 1 10) (scale v))\<rparr>
   \<and> keydown SDL_SCANCODE_D v
       = v\<lparr>view_x := fadd (view_x v) (fdiv (float_literal False 1 10) (scale v))\<rparr>
   \<and> keydown SDL_SCANCODE_Z v
       = v\<lparr>scale := fadd (scale v) (fmul (float_literal False 1 10) (scale v))\<rparr>
   \<and> keydown SDL_SCANCODE_X v
       = v\<lparr>scale := fsub (scale v) (fmul (float_literal False 1 10) (scale v))\<rparr>
   \<and> keydown SDL_SCANCODE_R v = v\<lparr>max_iterations := max_iterations v + 1\<rparr>
   \<and> keydown SDL_SCANCODE_E v
       = (if 0 < max_iterations v then v\<lparr>max_iterations := max_iterations v - 1\<rparr> else v)
   \<and> keydown SDL_SCANCODE_UNKNOWN v = v
   \<and> run_loop w p vao v [] = ([], Pending)
   \<and> run_loop w p vao v (evs # frames) =
       (if SDL_QUIT \<in> set evs then (fst (iteration w p vao evs v), Returned ())
        else (fst (iteration w p vao evs v)
                @ fst (run_loop w p vao (fold keydown (List.map_filter pressed evs) v) frames),
              snd (run_loop w p vao (fold keydown (List.map_filter pressed evs) v) frames)))
   \<and> ((\<forall>f \<in> set pre. SDL_QUIT \<notin> set f) \<and> SDL_QUIT \<in> set quit \<longrightarrow>
        snd (run_loop w p vao v (pre @ quit # post)) = Returned ()
        \<and> count_list (fst (run_loop w p vao v (pre @ quit # post))) (SDL_Delay 30)
            = length pre + 1)
   \<and> ((\<forall>f \<in> set frames. SDL_QUIT \<notin> set f) \<longrightarrow> snd (run_loop w p vao v frames) = Pending)"
proof -
  have one: "iteration w p vao evs v =
     (map (\<lambda>ev. SDL_PollEvent (Some ev)) evs @ [SDL_PollEvent None]
        @ upload_and_draw p vao (fold keydown (List.map_filter pressed evs) v)
        @ [SDL_GL_SwapWindow w, SDL_Delay 30],
      fold keydown (List.map_filter pressed evs) v, SDL_QUIT \<notin> set evs)"
    by (simp add: iteration_eq view_fold)
  have stops: "snd (run_loop w p vao v (pre @ quit # post)) = Returned ()
        \<and> count_list (fst (run_loop w p vao v (pre @ quit # post))) (SDL_Delay 30)
            = length pre + 1"
    if "(\<forall>f \<in> set pre. SDL_QUIT \<notin> set f) \<and> SDL_QUIT \<in> set quit"
    using that run_loop_stops [of pre quit w p vao v post] by simp
  have goes_on: "snd (run_loop w p vao v frames) = Pending"
    if "\<forall>f \<in> set frames. SDL_QUIT \<notin> set f"
    using that by (simp add: run_loop_outcome)
  have next_frame: "run_loop w p vao v (evs # frames) =
       (if SDL_QUIT \<in> set evs then (fst (iteration w p vao evs v), Returned ())
        else (fst (iteration w p vao evs v)
                @ fst (run_loop w p vao (fold keydown (List.map_filter pressed evs) v) frames),
              snd (run_loop w p vao (fold keydown (List.map_filter pressed evs) v) frames)))"
    using run_loop_Cons [of w p vao v evs frames] by (simp only: view_fold)
  show ?thesis
    using stops goes_on
    by (simp add: Let_def one upload_and_draw_def WINDOW_WIDTH_def WINDOW_HEIGHT_def
        keydown_defs next_frame del: run_loop.simps(2))
qed

theorem loop_iteration_sequence_witness:
  "iteration 1 3 2 [SDL_KEYDOWN SDL_SCANCODE_R, SDL_OTHER_EVENT] initial_view =
     ([SDL_PollEvent (Some (SDL_KEYDOWN SDL_SCANCODE_R)), SDL_PollEvent (Some SDL_OTHER_EVENT),
       SDL_PollEvent None,
       glUseProgram 3,
       glUniform1f 0 (Finite False 13107200 (- 14)),
       glUniform1f 1 (Finite False 9830400 (- 14)),
       glUniform2f 2 (Finite True 8388608 (- 22)) (Finite False 8388608 (- 23)),
       glUniform2f 3 (Finite True 8388608 (- 23)) (Finite False 8388608 (- 23)),
       glUniform1ui 4 31,
       glClear, glBindVertexArray 2, glDrawArrays 0 6, glBindVertexArray 0, glUseProgram 0,
       SDL_GL_SwapWindow 1, SDL_Delay 30],
      \<lparr>max_iterations = 31, scale = Finite False 8388608 (- 23),
       view_x = Finite False 0 (- 149), view_y = Finite False 0 (- 149)\<rparr>, True)
   \<and> snd (run_loop 1 3 2 initial_view
          ([[SDL_KEYDOWN SDL_SCANCODE_R]] @ [SDL_KEYDOWN SDL_SCANCODE_E, SDL_QUIT]
             # [[SDL_OTHER_EVENT]])) = Returned ()
   \<and> count_list (fst (run_loop 1 3 2 initial_view
          ([[SDL_KEYDOWN SDL_SCANCODE_R]] @ [SDL_KEYDOWN SDL_SCANCODE_E, SDL_QUIT]
             # [[SDL_OTHER_EVENT]]))) (SDL_Delay 30) = 2
   \<and> snd (run_loop 1 3 2 initial_view [[SDL_KEYDOWN SDL_SCANCODE_R], [SDL_OTHER_EVENT]])
       = Pending"
proof -
  note this_run = loop_iteration_sequence
    [where w = 1 and p = 3 and vao = 2
       and evs = "[SDL_KEYDOWN SDL_SCANCODE_R, SDL_OTHER_EVENT]" and v = initial_view
       and frames = "[[SDL_KEYDOWN SDL_SCANCODE_R], [SDL_OTHER_EVENT]]"
       and pre = "[[SDL_KEYDOWN SDL_SCANCODE_R]]"
       and quit = "[SDL_KEYDOWN SDL_SCANCODE_E, SDL_QUIT]"
       and post = "[[SDL_OTHER_EVENT]]"]
  have view: "fold keydown (List.map_filter pressed [SDL_KEYDOWN SDL_SCANCODE_R, SDL_OTHER_EVENT])
      initial_view
    = \<lparr>max_iterations = 31, scale = Finite False 8388608 (- 23),
       view_x = Finite False 0 (- 149), view_y = Finite False 0 (- 149)\<rparr>"
    by (simp add: List.map_filter_simps keydown_defs initial_view_def float32_eval)
  from this_run show ?thesis
    by (simp only: view Let_def) (simp add: float32_eval)
qed

section \<open>The exit code\<close>

lemma snd_and_then:
  "snd (and_then r f) =
     (case snd r of Returned a \<Rightarrow> snd (f a) | Thrown x \<Rightarrow> Thrown x
      | Terminated \<Rightarrow> Terminated | Pending \<Rightarrow> Pending)"
  by (cases r; cases "snd r") (simp_all add: split_beta)

lemma and_then_Returned:
  "and_then (cs, Returned a) f = (cs @ fst (f a), snd (f a))"
  by (simp add: split_beta)

lemma and_then_Thrown:
  "snd r = Thrown x \<Longrightarrow> and_then r f = (fst r, Thrown x)"
  by (cases r) simp

lemma leave_scope_eq:
  "leave_scope \<lparr>index = i, deleter = Some d\<rparr> r =
     (case snd r of Terminated \<Rightarrow> r | Pending \<Rightarrow> r | _ \<Rightarrow> (fst r @ d i, snd r))"
  by (cases r; cases "snd r") (simp_all add: GLobject_dtor_def)

lemma snd_leave_scope:
  "snd (leave_scope \<lparr>index = i, deleter = Some d\<rparr> r) = snd r"
  by (simp add: leave_scope_eq split: outcome.splits)

lemma read_file_eq:
  "read_file fs file_path =
     ([], case fs file_path of
            Cannot_open \<Rightarrow> Thrown (runtime_error ''file reading error'')
          | Read_throws what \<Rightarrow> Thrown (runtime_error what)
          | Contents contents \<Rightarrow> Returned contents)"
  by (simp add: read_file_def split: file_answer.splits)

lemma read_sources_eq:
  "read_sources e =
     ([], case argument_order e of
        Left_to_right \<Rightarrow>
          (case files e ''res/mandelbrot_shader.vs'' of
             Cannot_open \<Rightarrow> Thrown (runtime_error ''file reading error'')
           | Read_throws what \<Rightarrow> Thrown (runtime_error what)
           | Contents vs \<Rightarrow>
               (case files e ''res/mandelbrot_shader.fs'' of
                  Cannot_open \<Rightarrow> Thrown (runtime_error ''file reading error'')
                | Read_throws what \<Rightarrow> Thrown (runtime_error what)
                | Contents fs \<Rightarrow> Returned (vs, fs)))
      | Right_to_left \<Rightarrow>
          (case files e ''res/mandelbrot_shader.fs'' of
             Cannot_open \<Rightarrow> Thrown (runtime_error ''file reading error'')
           | Read_throws what \<Rightarrow> Thrown (runtime_error what)
           | Contents fs \<Rightarrow>
               (case files e ''res/mandelbrot_shader.vs'' of
                  Cannot_open \<Rightarrow> Thrown (runtime_error ''file reading error'')
                | Read_throws what \<Rightarrow> Thrown (runtime_error what)
                | Contents vs \<Rightarrow> Returned (vs, fs))))"
  by (simp add: read_sources_def read_file_eq split: argument_order.splits file_answer.splits)

lemma read_sources_outcome:
  "snd (read_sources e) \<noteq> Terminated \<and> snd (read_sources e) \<noteq> Pending
   \<and> fst (read_sources e) = []"
  by (simp add: read_sources_eq split: argument_order.splits file_answer.splits)

lemma create_shader_program_finishes:
  "snd (create_shader_program drv vs fs) \<noteq> Terminated
   \<and> snd (create_shader_program drv vs fs) \<noteq> Pending
   \<and> (\<forall>g. snd (create_shader_program drv vs fs) = Returned g \<longrightarrow>
          g = \<lparr>index = created_program drv,
               deleter = Some (\<lambda>shader_program. [glDeleteProgram shader_program])\<rparr>)"
  by (simp add: create_shader_program_outcome)

lemma try_block_buffer_fails:
  "gen_buffer (driver e) = 0 \<Longrightarrow>
   try_block e = ([glGenBuffers 0], Thrown (runtime_error ''buffer generation error''))"
  by (simp add: try_block_def create_rectangle_buffer_eq)

lemma try_block_vertex_array_fails:
  "gen_buffer (driver e) \<noteq> 0 \<Longrightarrow> gen_vertex_array (driver e) = 0 \<Longrightarrow>
   try_block e =
     ([glGenBuffers (gen_buffer (driver e)), glBindBuffer (gen_buffer (driver e)),
       glBufferData rectangle_data, glBindBuffer 0,
       glGenVertexArrays 0,
       glDeleteBuffers (gen_buffer (driver e))],
      Thrown (runtime_error ''vertex array object generation error''))"
  by (simp add: try_block_def create_rectangle_buffer_eq
      create_rectangle_vertex_array_object_eq GLobject_dtor_def)

lemma try_block_read_fails:
  assumes "gen_buffer (driver e) \<noteq> 0" and "gen_vertex_array (driver e) \<noteq> 0"
    and "snd (read_sources e) = Thrown x"
  shows "try_block e =
     ([glGenBuffers (gen_buffer (driver e)), glBindBuffer (gen_buffer (driver e)),
       glBufferData rectangle_data, glBindBuffer 0,
       glGenVertexArrays (gen_vertex_array (driver e)),
       glBindVertexArray (gen_vertex_array (driver e)),
       glBindBuffer (gen_buffer (driver e)),
       glVertexAttribPointer 0 3, glEnableVertexAttribArray 0,
       glBindBuffer 0, glBindVertexArray 0,
       glDeleteVertexArrays (gen_vertex_array (driver e)),
       glDeleteBuffers (gen_buffer (driver e))],
      Thrown x)"
proof -
  have "read_sources e = ([], Thrown x)"
    using assms(3) read_sources_outcome [of e] by (simp add: prod_eq_iff)
  with assms(1,2) show ?thesis
    by (simp add: try_block_def create_rectangle_buffer_eq
        create_rectangle_vertex_array_object_eq and_then_Returned leave_scope_eq
        del: leave_scope.simps)
qed

lemma try_block_program_fails:
  assumes "gen_buffer (driver e) \<noteq> 0" and "gen_vertex_array (driver e) \<noteq> 0"
    and "snd (read_sources e) = Returned (vs, fs)"
    and "snd (create_shader_program (driver e) vs fs) = Thrown x"
  shows "try_block e =
     ([glGenBuffers (gen_buffer (driver e)), glBindBuffer (gen_buffer (driver e)),
       glBufferData rectangle_data, glBindBuffer 0,
       glGenVertexArrays (gen_vertex_array (driver e)),
       glBindVertexArray (gen_vertex_array (driver e)),
       glBindBuffer (gen_buffer (driver e)),
       glVertexAttribPointer 0 3, glEnableVertexAttribArray 0,
       glBindBuffer 0, glBindVertexArray 0]
      @ fst (create_shader_program (driver e) vs fs)
      @ [glDeleteVertexArrays (gen_vertex_array (driver e)),
         glDeleteBuffers (gen_buffer (driver e))],
      Thrown x)"
proof -
  have rs: "read_sources e = ([], Returned (vs, fs))"
    using assms(3) read_sources_outcome [of e] by (simp add: prod_eq_iff)
  have sp: "create_shader_program (driver e) vs fs
      = (fst (create_shader_program (driver e) vs fs), Thrown x)"
    using assms(4) by (simp add: prod_eq_iff)
  have "and_then (create_shader_program (driver e) vs fs) f
      = (fst (create_shader_program (driver e) vs fs), Thrown x)" for f :: "GLobject \<Rightarrow> unit run"
    using assms(4) by (rule and_then_Thrown)
  with assms(1,2) rs show ?thesis
    by (simp add: try_block_def create_rectangle_buffer_eq
        create_rectangle_vertex_array_object_eq and_then_Returned leave_scope_eq
        del: leave_scope.simps)
qed

lemma try_block_runs:
  assumes "gen_buffer (driver e) \<noteq> 0" and "gen_vertex_array (driver e) \<noteq> 0"
    and "snd (read_sources e) = Returned (vs, fs)"
    and "snd (create_shader_program (driver e) vs fs) = Returned g"
  shows "try_block e =
     ([glGenBuffers (gen_buffer (driver e)), glBindBuffer (gen_buffer (driver e)),
       glBufferData rectangle_data, glBindBuffer 0,
       glGenVertexArrays (gen_vertex_array (driver e)),
       glBindVertexArray (gen_vertex_array (driver e)),
       glBindBuffer (gen_buffer (driver e)),
       glVertexAttribPointer 0 3, glEnableVertexAttribArray 0,
       glBindBuffer 0, glBindVertexArray 0]
      @ fst (create_shader_program (driver e) vs fs)
      @ fst (run_loop (created_window e) (created_program (driver e))
           (gen_vertex_array (driver e)) initial_view (polled e))
      @ (if \<exists>f \<in> set (polled e). SDL_QUIT \<in> set f
         then [glDeleteProgram (created_program (driver e)),
               glDeleteVertexArrays (gen_vertex_array (driver e)),
               glDeleteBuffers (gen_buffer (driver e))]
         else []),
      if \<exists>f \<in> set (polled e). SDL_QUIT \<in> set f then Returned () else Pending)"
proof -
  have rs: "read_sources e = ([], Returned (vs, fs))"
    using assms(3) read_sources_outcome [of e] by (simp add: prod_eq_iff)
  have g: "g = \<lparr>index = created_program (driver e),
        deleter = Some (\<lambda>shader_program. [glDeleteProgram shader_program])\<rparr>"
    using create_shader_program_finishes [of "driver e" vs fs] assms(4) by simp
  have sp: "create_shader_program (driver e) vs fs
      = (fst (create_shader_program (driver e) vs fs), Returned g)"
    using assms(4) by (simp add: prod_eq_iff)
  define L where "L = run_loop (created_window e) (created_program (driver e))
        (gen_vertex_array (driver e)) initial_view (polled e)"
  have outcome: "snd L = (if \<exists>f \<in> set (polled e). SDL_QUIT \<in> set f then Returned () else Pending)"
    unfolding L_def by (rule run_loop_outcome)
  have step: "and_then (create_shader_program (driver e) vs fs) f
      = (fst (create_shader_program (driver e) vs fs) @ fst (f g), snd (f g))"
    for f :: "GLobject \<Rightarrow> unit run"
    by (subst sp) (rule and_then_Returned)
  have inner: "leave_scope g L =
      (fst L @ (if \<exists>f \<in> set (polled e). SDL_QUIT \<in> set f
                then [glDeleteProgram (created_program (driver e))] else []),
       snd L)"
    by (simp add: g leave_scope_eq outcome prod_eq_iff del: leave_scope.simps)
  from assms(1,2) rs show ?thesis
    by (simp add: try_block_def create_rectangle_buffer_eq
        create_rectangle_vertex_array_object_eq and_then_Returned step leave_scope_eq
        inner [unfolded L_def g, simplified] outcome [unfolded L_def] g
        del: leave_scope.simps and_then.simps)
qed


lemma try_block_finishes:
  "snd (try_block e) \<noteq> Terminated
   \<and> ((\<exists>f \<in> set (polled e). SDL_QUIT \<in> set f) \<longrightarrow> snd (try_block e) \<noteq> Pending)"
proof (cases "gen_buffer (driver e) = 0")
  case True
  then show ?thesis by (simp add: try_block_buffer_fails)
next
  case buffer: False
  show ?thesis
  proof (cases "gen_vertex_array (driver e) = 0")
    case True
    with buffer show ?thesis by (simp add: try_block_vertex_array_fails)
  next
    case vao: False
    show ?thesis
    proof (cases "snd (read_sources e)")
      case (Returned sources)
      then have rs: "snd (read_sources e) = Returned (fst sources, snd sources)" by simp
      show ?thesis
      proof (cases "snd (create_shader_program (driver e) (fst sources) (snd sources))")
        case (Returned g)
        then show ?thesis by (simp add: try_block_runs [OF buffer vao rs])
      next
        case (Thrown x)
        then show ?thesis by (simp add: try_block_program_fails [OF buffer vao rs])
      qed (use create_shader_program_finishes [of "driver e" "fst sources" "snd sources"]
          in simp_all)
    next
      case (Thrown x)
      then show ?thesis by (simp add: try_block_read_fails [OF buffer vao])
    qed (use read_sources_outcome [of e] in simp_all)
  qed
qed

lemma snd_catch_exception:
  "snd (catch_exception r) = (case snd r of Thrown x \<Rightarrow> Returned () | other \<Rightarrow> other)"
proof (cases r)
  case (Pair cs out)
  then show ?thesis
  proof (cases out)
    case (Thrown x)
    with Pair show ?thesis by (cases x) simp
  qed simp_all
qed

lemma main_outcome:
  "snd (main e) =
     (if 0 \<le> sdl_init e \<and> created_window e \<noteq> 0 \<and> created_context e \<noteq> 0
         \<and> snd (try_block e) = Pending
      then Pending else Returned 0)"
  using try_block_finishes [of e]
  by (cases "snd (try_block e)")
    (simp_all add: main_def with_window_def with_context_def and_then_Returned snd_and_then
      snd_catch_exception del: and_then.simps)

lemma main_thrown:
  assumes "0 \<le> sdl_init e" and "created_window e \<noteq> 0" and "created_context e \<noteq> 0"
    and "snd (try_block e) = Thrown (runtime_error what)"
  shows "main e =
     ([SDL_Init (sdl_init e),
       SDL_GL_SetAttribute SDL_GL_CONTEXT_PROFILE_MASK SDL_GL_CONTEXT_PROFILE_CORE,
       SDL_GL_SetAttribute SDL_GL_CONTEXT_MAJOR_VERSION (Attribute_int 4),
       SDL_GL_SetAttribute SDL_GL_CONTEXT_MINOR_VERSION (Attribute_int 5),
       SDL_GL_SetAttribute SDL_GL_DOUBLEBUFFER (Attribute_int 1),
       SDL_CreateWindow ''MandelbrotGL'' 800 600 (created_window e),
       SDL_GL_CreateContext (created_window e) (created_context e),
       glewInit]
      @ fst (try_block e)
      @ [cerr what, SDL_GL_DeleteContext (created_context e),
         SDL_DestroyWindow (created_window e), SDL_Quit],
      Returned 0)"
proof -
  from assms(4) have "try_block e = (fst (try_block e), Thrown (runtime_error what))"
    by (simp add: prod_eq_iff)
  then have "catch_exception (try_block e) = (fst (try_block e) @ [cerr what], Returned ())"
    by (metis catch_exception.simps(1))
  with assms(1-3) show ?thesis
    by (simp add: main_def with_window_def with_context_def and_then_Returned
        WINDOW_WIDTH_def WINDOW_HEIGHT_def del: and_then.simps)
qed

lemma main_returned:
  assumes "0 \<le> sdl_init e" and "created_window e \<noteq> 0" and "created_context e \<noteq> 0"
    and "snd (try_block e) = Returned ()"
  shows "main e =
     ([SDL_Init (sdl_init e),
       SDL_GL_SetAttribute SDL_GL_CONTEXT_PROFILE_MASK SDL_GL_CONTEXT_PROFILE_CORE,
       SDL_GL_SetAttribute SDL_GL_CONTEXT_MAJOR_VERSION (Attribute_int 4),
       SDL_GL_SetAttribute SDL_GL_CONTEXT_MINOR_VERSION (Attribute_int 5),
       SDL_GL_SetAttribute SDL_GL_DOUBLEBUFFER (Attribute_int 1),
       SDL_CreateWindow ''MandelbrotGL'' 800 600 (created_window e),
       SDL_GL_CreateContext (created_window e) (created_context e),
       glewInit]
      @ fst (try_block e)
      @ [SDL_GL_DeleteContext (created_context e),
         SDL_DestroyWindow (created_window e), SDL_Quit],
      Returned 0)"
proof -
  from assms(4) have "try_block e = (fst (try_block e), Returned ())"
    by (simp add: prod_eq_iff)
  then have "catch_exception (try_block e) = (fst (try_block e), Returned ())"
    by (metis catch_exception.simps(2))
  with assms(1-3) show ?thesis
    by (simp add: main_def with_window_def with_context_def and_then_Returned
        WINDOW_WIDTH_def WINDOW_HEIGHT_def del: and_then.simps)
qed

text \<open>
  C9. Every handle of \<^verbatim>\<open>main\<close> is built in place from its factory's result (copy
  elision, as the factories have it), so none is moved from and no destructor meets an
  empty deleter. On that footing \<^verbatim>\<open>main\<close> returns 0 whenever it returns, and it
  returns as soon as a frame hands out a quit event; with no quit event the loop is still
  running when the supplied events end. A failed \<^verbatim>\<open>SDL_Init\<close>, window or context is
  reported on the standard error stream and what was acquired is released. An exception
  that leaves the \<^verbatim>\<open>try\<close> block is caught and its message printed, then context,
  window and SDL are shut down: a failed allocation, a file that cannot be opened
  (\<^verbatim>\<open>file reading error\<close>), a read that throws (the library's message), a failed
  compilation or link. The handles acquired before the failure are released in reverse
  order.
\<close>

theorem exit_code_zero:
  "(snd (main e) = Returned 0 \<or> snd (main e) = Pending)
   \<and> ((\<exists>f \<in> set (polled e). SDL_QUIT \<in> set f) \<longrightarrow> snd (main e) = Returned 0)
   \<and> (sdl_init e < 0 \<longrightarrow>
        main e = ([SDL_Init (sdl_init e),
                   cerr (''SDL2 initialization error: '' @ sdl_error e)], Returned 0))
   \<and> (0 \<le> sdl_init e \<and> created_window e = 0 \<longrightarrow>
        main e =
          ([SDL_Init (sdl_init e),
            SDL_GL_SetAttribute SDL_GL_CONTEXT_PROFILE_MASK SDL_GL_CONTEXT_PROFILE_CORE,
            SDL_GL_SetAttribute SDL_GL_CONTEXT_MAJOR_VERSION (Attribute_int 4),
            SDL_GL_SetAttribute SDL_GL_CONTEXT_MINOR_VERSION (Attribute_int 5),
            SDL_GL_SetAttribute SDL_GL_DOUBLEBUFFER (Attribute_int 1),
            SDL_CreateWindow ''MandelbrotGL'' 800 600 0,
            cerr (''SDL_Window creation error: '' @ sdl_error e),
            SDL_Quit],
           Returned 0))
   \<and> (0 \<le> sdl_init e \<and> created_window e \<noteq> 0 \<and> created_context e = 0 \<longrightarrow>
        main e =
          ([SDL_Init (sdl_init e),
            SDL_GL_SetAttribute SDL_GL_CONTEXT_PROFILE_MASK SDL_GL_CONTEXT_PROFILE_CORE,
            SDL_GL_SetAttribute SDL_GL_CONTEXT_MAJOR_VERSION (Attribute_int 4),
            SDL_GL_SetAttribute SDL_GL_CONTEXT_MINOR_VERSION (Attribute_int 5),
            SDL_GL_SetAttribute SDL_GL_DOUBLEBUFFER (Attribute_int 1),
            SDL_CreateWindow ''MandelbrotGL'' 800 600 (created_window e),
            SDL_GL_CreateContext (created_window e) 0,
            cerr (''SDL_GLContext creation error: '' @ sdl_error e),
            SDL_DestroyWindow (created_window e),
            SDL_Quit],
           Returned 0))
   \<and> (0 \<le> sdl_init e \<and> created_window e \<noteq> 0 \<and> created_context e \<noteq> 0
        \<and> snd (try_block e) = Thrown (runtime_error what) \<longrightarrow>
        main e =
          ([SDL_Init (sdl_init e),
            SDL_GL_SetAttribute SDL_GL_CONTEXT_PROFILE_MASK SDL_GL_CONTEXT_PROFILE_CORE,
            SDL_GL_SetAttribute SDL_GL_CONTEXT_MAJOR_VERSION (Attribute_int 4),
            SDL_GL_SetAttribute SDL_GL_CONTEXT_MINOR_VERSION (Attribute_int 5),
            SDL_GL_SetAttribute SDL_GL_DOUBLEBUFFER (Attribute_int 1),
            SDL_CreateWindow ''MandelbrotGL'' 800 600 (created_window e),
            SDL_GL_CreateContext (created_window e) (created_context e),
            glewInit]
           @ fst (try_block e)
           @ [cerr what, SDL_GL_DeleteContext (created_context e),
              SDL_DestroyWindow (created_window e), SDL_Quit],
           Returned 0))
   \<and> (0 \<le> sdl_init e \<and> created_window e \<noteq> 0 \<and> created_context e \<noteq> 0
        \<and> snd (try_block e) = Returned () \<longrightarrow>
        main e =
          ([SDL_Init (sdl_init e),
            SDL_GL_SetAttribute SDL_GL_CONTEXT_PROFILE_MASK SDL_GL_CONTEXT_PROFILE_CORE,
            SDL_GL_SetAttribute SDL_GL_CONTEXT_MAJOR_VERSION (Attribute_int 4),
            SDL_GL_SetAttribute SDL_GL_CONTEXT_MINOR_VERSION (Attribute_int 5),
            SDL_GL_SetAttribute SDL_GL_DOUBLEBUFFER (Attribute_int 1),
            SDL_CreateWindow ''MandelbrotGL'' 800 600 (created_window e),
            SDL_GL_CreateContext (created_window e) (created_context e),
            glewInit]
           @ fst (try_block e)
           @ [SDL_GL_DeleteContext (created_context e),
              SDL_DestroyWindow (created_window e), SDL_Quit],
           Returned 0))
   \<and> read_file answers file_path =
       ([], case answers file_path of
              Cannot_open \<Rightarrow> Thrown (runtime_error ''file reading error'')
            | Read_throws message \<Rightarrow> Thrown (runtime_error message)
            | Contents contents \<Rightarrow> Returned contents)
   \<and> read_sources e =
       ([], case argument_order e of
          Left_to_right \<Rightarrow>
            (case files e ''res/mandelbrot_shader.vs'' of
               Cannot_open \<Rightarrow> Thrown (runtime_error ''file reading error'')
             | Read_throws message \<Rightarrow> Thrown (runtime_error message)
             | Contents vs \<Rightarrow>
                 (case files e ''res/mandelbrot_shader.fs'' of
                    Cannot_open \<Rightarrow> Thrown (runtime_error ''file reading error'')
                  | Read_throws message \<Rightarrow> Thrown (runtime_error message)
                  | Contents fs \<Rightarrow> Returned (vs, fs)))
        | Right_to_left \<Rightarrow>
            (case files e ''res/mandelbrot_shader.fs'' of
               Cannot_open \<Rightarrow> Thrown (runtime_error ''file reading error'')
             | Read_throws message \<Rightarrow> Thrown (runtime_error message)
             | Contents fs \<Rightarrow>
                 (case files e ''res/mandelbrot_shader.vs'' of
                    Cannot_open \<Rightarrow> Thrown (runtime_error ''file reading error'')
                  | Read_throws message \<Rightarrow> Thrown (runtime_error message)
                  | Contents vs \<Rightarrow> Returned (vs, fs))))
   \<and> (gen_buffer (driver e) = 0 \<longrightarrow>
        try_block e = ([glGenBuffers 0], Thrown (runtime_error ''buffer generation error'')))
   \<and> (gen_buffer (driver e) \<noteq> 0 \<and> gen_vertex_array (driver e) = 0 \<longrightarrow>
        try_block e =
          ([glGenBuffers (gen_buffer (driver e)), glBindBuffer (gen_buffer (driver e)),
            glBufferData rectangle_data, glBindBuffer 0,
            glGenVertexArrays 0,
            glDeleteBuffers (gen_buffer (driver e))],
           Thrown (runtime_error ''vertex array object generation error'')))
   \<and> (gen_buffer (driver e) \<noteq> 0 \<and> gen_vertex_array (driver e) \<noteq> 0
        \<and> snd (read_sources e) = Thrown x \<longrightarrow>
        try_block e =
          ([glGenBuffers (gen_buffer (driver e)), glBindBuffer (gen_buffer (driver e)),
            glBufferData rectangle_data, glBindBuffer 0,
            glGenVertexArrays (gen_vertex_array (driver e)),
            glBindVertexArray (gen_vertex_array (driver e)),
            glBindBuffer (gen_buffer (driver e)),
            glVertexAttribPointer 0 3, glEnableVertexAttribArray 0,
            glBindBuffer 0, glBindVertexArray 0,
            glDeleteVertexArrays (gen_vertex_array (driver e)),
            glDeleteBuffers (gen_buffer (driver e))],
           Thrown x))
   \<and> (gen_buffer (driver e) \<noteq> 0 \<and> gen_vertex_array (driver e) \<noteq> 0
        \<and> snd (read_sources e) = Returned (vs, fs)
        \<and> snd (create_shader_program (driver e) vs fs) = Thrown x \<longrightarrow>
        try_block e =
          ([glGenBuffers (gen_buffer (driver e)), glBindBuffer (gen_buffer (driver e)),
            glBufferData rectangle_data, glBindBuffer 0,
            glGenVertexArrays (gen_vertex_array (driver e)),
            glBindVertexArray (gen_vertex_array (driver e)),
            glBindBuffer (gen_buffer (driver e)),
            glVertexAttribPointer 0 3, glEnableVertexAttribArray 0,
            glBindBuffer 0, glBindVertexArray 0]
           @ fst (create_shader_program (driver e) vs fs)
           @ [glDeleteVertexArrays (gen_vertex_array (driver e)),
              glDeleteBuffers (gen_buffer (driver e))],
           Thrown x))
   \<and> (gen_buffer (driver e) \<noteq> 0 \<and> gen_vertex_array (driver e) \<noteq> 0
        \<and> snd (read_sources e) = Returned (vs, fs)
        \<and> snd (create_shader_program (driver e) vs fs) = Returned g \<longrightarrow>
        try_block e =
          ([glGenBuffers (gen_buffer (driver e)), glBindBuffer (gen_buffer (driver e)),
            glBufferData rectangle_data, glBindBuffer 0,
            glGenVertexArrays (gen_vertex_array (driver e)),
            glBindVertexArray (gen_vertex_array (driver e)),
            glBindBuffer (gen_buffer (driver e)),
            glVertexAttribPointer 0 3, glEnableVertexAttribArray 0,
            glBindBuffer 0, glBindVertexArray 0]
           @ fst (create_shader_program (driver e) vs fs)
           @ fst (run_loop (created_window e) (created_program (driver e))
                (gen_vertex_array (driver e)) initial_view (polled e))
           @ (if \<exists>f \<in> set (polled e). SDL_QUIT \<in> set f
              then [glDeleteProgram (created_program (driver e)),
                    glDeleteVertexArrays (gen_vertex_array (driver e)),
                    glDeleteBuffers (gen_buffer (driver e))]
              else []),
           if \<exists>f \<in> set (polled e). SDL_QUIT \<in> set f then Returned () else Pending))"
proof -
  have quit: "snd (main e) = Returned 0" if "\<exists>f \<in> set (polled e). SDL_QUIT \<in> set f"
    using try_block_finishes [of e] that by (simp add: main_outcome)
  have init: "main e = ([SDL_Init (sdl_init e),
      cerr (''SDL2 initialization error: '' @ sdl_error e)], Returned 0)" if "sdl_init e < 0"
    using that by (simp add: main_def)
  have window: "main e =
          ([SDL_Init (sdl_init e),
            SDL_GL_SetAttribute SDL_GL_CONTEXT_PROFILE_MASK SDL_GL_CONTEXT_PROFILE_CORE,
            SDL_GL_SetAttribute SDL_GL_CONTEXT_MAJOR_VERSION (Attribute_int 4),
            SDL_GL_SetAttribute SDL_GL_CONTEXT_MINOR_VERSION (Attribute_int 5),
            SDL_GL_SetAttribute SDL_GL_DOUBLEBUFFER (Attribute_int 1),
            SDL_CreateWindow ''MandelbrotGL'' 800 600 0,
            cerr (''SDL_Window creation error: '' @ sdl_error e),
            SDL_Quit],
           Returned 0)"
    if "0 \<le> sdl_init e \<and> created_window e = 0"
    using that by (simp add: main_def with_window_def WINDOW_WIDTH_def WINDOW_HEIGHT_def)
  have no_context: "main e =
          ([SDL_Init (sdl_init e),
            SDL_GL_SetAttribute SDL_GL_CONTEXT_PROFILE_MASK SDL_GL_CONTEXT_PROFILE_CORE,
            SDL_GL_SetAttribute SDL_GL_CONTEXT_MAJOR_VERSION (Attribute_int 4),
            SDL_GL_SetAttribute SDL_GL_CONTEXT_MINOR_VERSION (Attribute_int 5),
            SDL_GL_SetAttribute SDL_GL_DOUBLEBUFFER (Attribute_int 1),
            SDL_CreateWindow ''MandelbrotGL'' 800 600 (created_window e),
            SDL_GL_CreateContext (created_window e) 0,
            cerr (''SDL_GLContext creation error: '' @ sdl_error e),
            SDL_DestroyWindow (created_window e),
            SDL_Quit],
           Returned 0)"
    if "0 \<le> sdl_init e \<and> created_window e \<noteq> 0 \<and> created_context e = 0"
    using that
    by (simp add: main_def with_window_def with_context_def WINDOW_WIDTH_def WINDOW_HEIGHT_def)
  show ?thesis
    using quit init window no_context main_thrown [of e what] main_returned [of e]
      try_block_buffer_fails [of e] try_block_vertex_array_fails [of e]
      try_block_read_fails [of e x] try_block_program_fails [of e vs fs x]
      try_block_runs [of e vs fs g]
    by (intro conjI impI)
      (simp_all only: main_outcome read_file_eq read_sources_eq, simp_all)
qed

theorem exit_code_zero_witness:
  "main \<lparr>sdl_init = - 1, sdl_error = ''No available video device'', created_window = 0,
         created_context = 0,
         driver = \<lparr>gen_buffer = 0, gen_vertex_array = 0, created_shader = (\<lambda>t. 0),
                   compile_status = (\<lambda>t. 0), created_program = 0, link_status = 0\<rparr>,
         files = (\<lambda>path. Cannot_open), argument_order = Left_to_right, polled = []\<rparr>
     = ([SDL_Init (- 1), cerr ''SDL2 initialization error: No available video device''],
        Returned 0)
   \<and> snd (main \<lparr>sdl_init = 0, sdl_error = ''none'', created_window = 1, created_context = 1,
         driver = \<lparr>gen_buffer = 1, gen_vertex_array = 2,
                   created_shader = (\<lambda>t. if t = GL_VERTEX_SHADER then 4 else 5),
                   compile_status = (\<lambda>t. 1), created_program = 3, link_status = 1\<rparr>,
         files = (\<lambda>path. Contents ''void main() {}''), argument_order = Left_to_right,
         polled = [[SDL_KEYDOWN SDL_SCANCODE_W], [SDL_QUIT]]\<rparr>) = Returned 0
   \<and> main \<lparr>sdl_init = 0, sdl_error = ''none'', created_window = 1, created_context = 1,
         driver = \<lparr>gen_buffer = 1, gen_vertex_array = 2,
                   created_shader = (\<lambda>t. if t = GL_VERTEX_SHADER then 4 else 5),
                   compile_status = (\<lambda>t. 1), created_program = 3, link_status = 1\<rparr>,
         files = (\<lambda>path. if path = ''res/mandelbrot_shader.fs''
                    then Read_throws ''basic_filebuf::underflow error reading the file''
                    else Cannot_open),
         argument_order = Right_to_left, polled = [[SDL_QUIT]]\<rparr>
     = ([SDL_Init 0,
         SDL_GL_SetAttribute SDL_GL_CONTEXT_PROFILE_MASK SDL_GL_CONTEXT_PROFILE_CORE,
         SDL_GL_SetAttribute SDL_GL_CONTEXT_MAJOR_VERSION (Attribute_int 4),
         SDL_GL_SetAttribute SDL_GL_CONTEXT_MINOR_VERSION (Attribute_int 5),
         SDL_GL_SetAttribute SDL_GL_DOUBLEBUFFER (Attribute_int 1),
         SDL_CreateWindow ''MandelbrotGL'' 800 600 1,
         SDL_GL_CreateContext 1 1,
         glewInit,
         glGenBuffers 1, glBindBuffer 1, glBufferData rectangle_data, glBindBuffer 0,
         glGenVertexArrays 2, glBindVertexArray 2, glBindBuffer 1,
         glVertexAttribPointer 0 3, glEnableVertexAttribArray 0,
         glBindBuffer 0, glBindVertexArray 0,
         glDeleteVertexArrays 2, glDeleteBuffers 1,
         cerr ''basic_filebuf::underflow error reading the file'',
         SDL_GL_DeleteContext 1, SDL_DestroyWindow 1, SDL_Quit],
        Returned 0)"
proof -
  note first = exit_code_zero
    [of "\<lparr>sdl_init = - 1, sdl_error = ''No available video device'', created_window = 0,
          created_context = 0,
          driver = \<lparr>gen_buffer = 0, gen_vertex_array = 0, created_shader = (\<lambda>t. 0),
                    compile_status = (\<lambda>t. 0), created_program = 0, link_status = 0\<rparr>,
          files = (\<lambda>path. Cannot_open), argument_order = Left_to_right, polled = []\<rparr>"]
  note second = exit_code_zero
    [of "\<lparr>sdl_init = 0, sdl_error = ''none'', created_window = 1, created_context = 1,
          driver = \<lparr>gen_buffer = 1, gen_vertex_array = 2,
                    created_shader = (\<lambda>t. if t = GL_VERTEX_SHADER then 4 else 5),
                    compile_status = (\<lambda>t. 1), created_program = 3, link_status = 1\<rparr>,
          files = (\<lambda>path. Contents ''void main() {}''), argument_order = Left_to_right,
          polled = [[SDL_KEYDOWN SDL_SCANCODE_W], [SDL_QUIT]]\<rparr>"]
  note third = exit_code_zero
    [of "\<lparr>sdl_init = 0, sdl_error = ''none'', created_window = 1, created_context = 1,
          driver = \<lparr>gen_buffer = 1, gen_vertex_array = 2,
                    created_shader = (\<lambda>t. if t = GL_VERTEX_SHADER then 4 else 5),
                    compile_status = (\<lambda>t. 1), created_program = 3, link_status = 1\<rparr>,
          files = (\<lambda>path. if path = ''res/mandelbrot_shader.fs''
                     then Read_throws ''basic_filebuf::underflow error reading the file''
                     else Cannot_open),
          argument_order = Right_to_left, polled = [[SDL_QUIT]]\<rparr>"
        "''basic_filebuf::underflow error reading the file''" _ _
        "runtime_error ''basic_filebuf::underflow error reading the file''"]
  from first have a: "main \<lparr>sdl_init = - 1, sdl_error = ''No available video device'',
         created_window = 0, created_context = 0,
         driver = \<lparr>gen_buffer = 0, gen_vertex_array = 0, created_shader = (\<lambda>t. 0),
                   compile_status = (\<lambda>t. 0), created_program = 0, link_status = 0\<rparr>,
         files = (\<lambda>path. Cannot_open), argument_order = Left_to_right, polled = []\<rparr>
     = ([SDL_Init (- 1), cerr ''SDL2 initialization error: No available video device''],
        Returned 0)"
    by simp
  from second have b: "snd (main \<lparr>sdl_init = 0, sdl_error = ''none'', created_window = 1,
         created_context = 1,
         driver = \<lparr>gen_buffer = 1, gen_vertex_array = 2,
                   created_shader = (\<lambda>t. if t = GL_VERTEX_SHADER then 4 else 5),
                   compile_status = (\<lambda>t. 1), created_program = 3, link_status = 1\<rparr>,
         files = (\<lambda>path. Contents ''void main() {}''), argument_order = Left_to_right,
         polled = [[SDL_KEYDOWN SDL_SCANCODE_W], [SDL_QUIT]]\<rparr>) = Returned 0"
    by simp
  from third have c: "main \<lparr>sdl_init = 0, sdl_error = ''none'', created_window = 1,
         created_context = 1,
         driver = \<lparr>gen_buffer = 1, gen_vertex_array = 2,
                   created_shader = (\<lambda>t. if t = GL_VERTEX_SHADER then 4 else 5),
                   compile_status = (\<lambda>t. 1), created_program = 3, link_status = 1\<rparr>,
         files = (\<lambda>path. if path = ''res/mandelbrot_shader.fs''
                    then Read_throws ''basic_filebuf::underflow error reading the file''
                    else Cannot_open),
         argument_order = Right_to_left, polled = [[SDL_QUIT]]\<rparr>
     = ([SDL_Init 0,
         SDL_GL_SetAttribute SDL_GL_CONTEXT_PROFILE_MASK SDL_GL_CONTEXT_PROFILE_CORE,
         SDL_GL_SetAttribute SDL_GL_CONTEXT_MAJOR_VERSION (Attribute_int 4),
         SDL_GL_SetAttribute SDL_GL_CONTEXT_MINOR_VERSION (Attribute_int 5),
         SDL_GL_SetAttribute SDL_GL_DOUBLEBUFFER (Attribute_int 1),
         SDL_CreateWindow ''MandelbrotGL'' 800 600 1,
         SDL_GL_CreateContext 1 1,
         glewInit,
         glGenBuffers 1, glBindBuffer 1, glBufferData rectangle_data, glBindBuffer 0,
         glGenVertexArrays 2, glBindVertexArray 2, glBindBuffer 1,
         glVertexAttribPointer 0 3, glEnableVertexAttribArray 0,
         glBindBuffer 0, glBindVertexArray 0,
         glDeleteVertexArrays 2, glDeleteBuffers 1,
         cerr ''basic_filebuf::underflow error reading the file'',
         SDL_GL_DeleteContext 1, SDL_DestroyWindow 1, SDL_Quit],
        Returned 0)"
    by simp
  from a b c show ?thesis by simp
qed

end
